theory Spec2Isabelle
  imports Complex_Main "HOL-Library.Product_Lexorder" "HOL-Library.Log_Nat"
begin

section \<open>Data model\<close>

text \<open>
  The tables of the schema, each row a record whose fields carry the alias the stored
  procedures use for the table (\<open>u.\<close>, \<open>r.\<close>, \<open>v.\<close>, \<open>ui.\<close>, \<open>up.\<close>).
  A column is an \<open>option\<close> exactly where the \<open>Row\<close> type of the repository's
  \<open>Database\<close> declaration admits \<open>null\<close>; on the other columns the stored procedures'
  \<open>COALESCE\<close> is the identity and the \<open>ELSE\<close> branch of a \<open>CASE\<close> over
  \<open>vote_type\<close> cannot be reached.
  \<open>DECIMAL\<close> is exact, so it is \<open>rat\<close>; \<open>INTEGER\<close> is \<open>int\<close>; a UUID is an
  abstract identifier; a timestamp is a number of microseconds and a date a number of days.
  A JavaScript number is the rational it denotes, and the route's arithmetic rounds to the
  nearest double. Only the columns the procedures read or write are modelled.
\<close>

type_synonym uuid = nat
type_synonym timestamp = int
type_synonym date = int

datatype vote_type = Up | Down
datatype resource_status = Pending | Approved | Rejected | Hidden
datatype difficulty_level = Beginner | Intermediate | Advanced

record user =
  u_id :: uuid
  u_reputation_score :: int
  u_total_upvotes :: int
  u_total_downvotes :: int
  u_updated_at :: timestamp

record resource =
  r_id :: uuid
  r_category :: string
  r_tags :: "string list option"
  r_difficulty_level :: "difficulty_level option"
  r_estimated_time_minutes :: "int option"
  r_submitted_by :: "uuid option"
  r_submission_tx_hash :: "string option"
  r_submission_amount :: rat
  r_status :: resource_status
  r_upvotes :: int
  r_downvotes :: int
  r_quality_score :: rat
  r_trending_score :: rat
  r_created_at :: timestamp
  r_updated_at :: timestamp

record vote =
  v_id :: uuid
  v_resource_id :: uuid
  v_user_id :: uuid
  v_vote_type :: vote_type
  v_weight :: rat
  v_created_at :: timestamp
  v_updated_at :: timestamp

record user_interaction =
  ui_user_id :: "uuid option"
  ui_resource_id :: "uuid option"
  ui_interaction_type :: string
  ui_created_at :: timestamp

record user_preference =
  up_user_id :: uuid
  up_preferred_categories :: "string list"
  up_excluded_categories :: "string list"
  up_max_time_minutes :: int
  up_discovery_algorithm :: string

record weekly_reward =
  wr_id :: uuid
  wr_week_start :: date
  wr_week_end :: date
  wr_total_pool_amount :: rat
  wr_calculation_completed_at :: "timestamp option"

text \<open>A \<open>reward_distributions\<close> row carries what the reward distributor inserts:
  \<open>user_id\<close> is the \<open>submitted_by\<close> of the resource, which may be null.\<close>

record reward_distribution =
  rd_weekly_reward_id :: uuid
  rd_user_id :: "uuid option"
  rd_resource_id :: uuid
  rd_amount :: rat
  rd_rank :: int
  rd_quality_score :: rat

text \<open>A \<open>system_config\<close> value is JSONB; the procedures cast its text to a number.
  The text of a JSONB number is a decimal numeral: \<open>JNumber m s\<close> has the digits of
  \<open>m\<close>, the last \<open>s\<close> of them after the decimal point, so that \<open>JNumber 30 1\<close> reads
  \<open>3.0\<close>. The text of any other value is no numeral.\<close>

datatype jsonb = JNumber int nat | JString string | JBool bool | JNull

record db =
  users :: "user list"
  resources :: "resource list"
  votes :: "vote list"
  user_interactions :: "user_interaction list"
  user_preferences :: "user_preference list"
  weekly_rewards :: "weekly_reward list"
  reward_distributions :: "reward_distribution list"
  system_config :: "(string \<times> jsonb) list"

text \<open>What a statement can raise, and the responses with which the route handlers refuse.\<close>

datatype error =
    Invalid_text_representation
  | Numeric_value_out_of_range
  | Not_null_violation
  | Unique_violation
  | Feature_not_supported
  | Ambiguous_column
  | TypeError
  | Http string nat

text \<open>The constraints of the schema that the theorems rest on: the primary keys of
  \<open>users\<close> and \<open>resources\<close>, and the foreign key from a vote to its voter.\<close>

definition users_pkey :: "db \<Rightarrow> bool" where
  "users_pkey d = distinct (map u_id (users d))"

definition resources_pkey :: "db \<Rightarrow> bool" where
  "resources_pkey d = distinct (map r_id (resources d))"

definition votes_user_id_fkey :: "db \<Rightarrow> bool" where
  "votes_user_id_fkey d = list_all (\<lambda>v. v_user_id v \<in> set (map u_id (users d))) (votes d)"

section \<open>Quality scorer\<close>

text \<open>\<open>SELECT (value::TEXT)::DECIMAL INTO x FROM system_config WHERE key = k\<close>: no row
  leaves \<open>x\<close> null, a value whose text is not a number raises. \<open>(value::TEXT)::INT\<close>
  reads the text as a 32-bit integer: it raises on a decimal point, also on \<open>3.0\<close>, and
  on a numeral out of range.\<close>

fun cast_decimal :: "jsonb \<Rightarrow> error + rat" where
  "cast_decimal (JNumber m s) = Inr (of_int m / 10 ^ s)"
| "cast_decimal _ = Inl Invalid_text_representation"

fun cast_int :: "jsonb \<Rightarrow> error + int" where
  "cast_int (JNumber m s) =
     (if 0 < s then Inl Invalid_text_representation
      else if m < - 2147483648 \<or> 2147483647 < m then Inl Numeric_value_out_of_range
      else Inr m)"
| "cast_int _ = Inl Invalid_text_representation"

definition select_config_into ::
  "(jsonb \<Rightarrow> error + 'a) \<Rightarrow> db \<Rightarrow> string \<Rightarrow> error + 'a option" where
  "select_config_into cast d k =
     (case map_of (system_config d) k of
        None \<Rightarrow> Inr None
      | Some j \<Rightarrow> (case cast j of Inl e \<Rightarrow> Inl e | Inr x \<Rightarrow> Inr (Some x)))"

text \<open>SQL's three-valued comparison and conjunction.\<close>

fun sql_ge :: "('a::linorder) option \<Rightarrow> 'a option \<Rightarrow> bool option" where
  "sql_ge (Some a) (Some b) = Some (a \<ge> b)"
| "sql_ge _ _ = None"

fun sql_le :: "('a::linorder) option \<Rightarrow> 'a option \<Rightarrow> bool option" where
  "sql_le (Some a) (Some b) = Some (a \<le> b)"
| "sql_le _ _ = None"

fun sql_and :: "bool option \<Rightarrow> bool option \<Rightarrow> bool option" where
  "sql_and (Some False) _ = Some False"
| "sql_and _ (Some False) = Some False"
| "sql_and (Some True) (Some True) = Some True"
| "sql_and _ _ = None"

record quality_score_result =
  upvotes :: int
  downvotes :: int
  weighted_score :: rat
  voter_count :: int
  should_auto_approve :: "bool option"
  should_auto_hide :: "bool option"

text \<open>\<open>FROM votes v JOIN users u ON v.user_id = u.id WHERE v.resource_id = resource_id\<close>\<close>

definition vote_stats_rows :: "db \<Rightarrow> uuid \<Rightarrow> (vote \<times> user) list" where
  "vote_stats_rows d resource_id =
     [(v, u). v \<leftarrow> votes d, u \<leftarrow> users d, v_user_id v = u_id u, v_resource_id v = resource_id]"

definition calculated_score_term :: "vote \<times> user \<Rightarrow> rat" where
  "calculated_score_term vu =
     (case v_vote_type (fst vu) of
        Up \<Rightarrow> min (of_int (u_reputation_score (snd vu)) * 0.1 + 1) 5.0
      | Down \<Rightarrow> - min (of_int (u_reputation_score (snd vu)) * 0.1 + 1) 5.0)"

definition calculate_quality_score :: "db \<Rightarrow> uuid \<Rightarrow> error + quality_score_result" where
  "calculate_quality_score d resource_id =
     (case select_config_into cast_decimal d ''auto_approve_threshold'' of
        Inl e \<Rightarrow> Inl e
      | Inr auto_approve_threshold \<Rightarrow>
     (case select_config_into cast_decimal d ''auto_hide_threshold'' of
        Inl e \<Rightarrow> Inl e
      | Inr auto_hide_threshold \<Rightarrow>
     (case select_config_into cast_int d ''min_votes_for_auto_action'' of
        Inl e \<Rightarrow> Inl e
      | Inr min_votes_required \<Rightarrow>
        (let vs = vote_stats_rows d resource_id;
             up_count = int (length (filter (\<lambda>vu. v_vote_type (fst vu) = Up) vs));
             down_count = int (length (filter (\<lambda>vu. v_vote_type (fst vu) = Down) vs));
             total_voters = int (length (remdups (map (\<lambda>vu. v_user_id (fst vu)) vs)));
             calculated_score = sum_list (map calculated_score_term vs)
         in Inr \<lparr> upvotes = up_count,
                  downvotes = down_count,
                  weighted_score = calculated_score,
                  voter_count = total_voters,
                  should_auto_approve =
                    sql_and (sql_ge (Some calculated_score) auto_approve_threshold)
                            (sql_ge (Some total_voters) min_votes_required),
                  should_auto_hide =
                    sql_and (sql_le (Some calculated_score) auto_hide_threshold)
                            (sql_ge (Some total_voters) min_votes_required) \<rparr>))))"

section \<open>Resource state updater\<close>

text \<open>\<open>UPDATE resources SET ... WHERE id = resource_id\<close>\<close>

definition update_resources_where_id :: "uuid \<Rightarrow> (resource \<Rightarrow> resource) \<Rightarrow> db \<Rightarrow> db" where
  "update_resources_where_id resource_id f d =
     d\<lparr>resources := map (\<lambda>r. if r_id r = resource_id then f r else r) (resources d)\<rparr>"

text \<open>\<open>SELECT status INTO resource_status FROM resources WHERE id = resource_id\<close>\<close>

definition select_status :: "db \<Rightarrow> uuid \<Rightarrow> resource_status option" where
  "select_status d resource_id =
     map_option r_status (find (\<lambda>r. r_id r = resource_id) (resources d))"

definition update_resource_scores :: "db \<Rightarrow> timestamp \<Rightarrow> uuid \<Rightarrow> error + db" where
  "update_resource_scores d now resource_id =
     (case calculate_quality_score d resource_id of
        Inl e \<Rightarrow> Inl e
      | Inr score_data \<Rightarrow>
        (let resource_status = select_status d resource_id;
             d1 = update_resources_where_id resource_id
                    (\<lambda>r. r\<lparr>r_upvotes := upvotes score_data,
                            r_downvotes := downvotes score_data,
                            r_quality_score := weighted_score score_data,
                            r_updated_at := now\<rparr>) d
         in if resource_status = Some Pending then
              (if should_auto_approve score_data = Some True then
                 Inr (update_resources_where_id resource_id
                        (\<lambda>r. r\<lparr>r_status := Approved, r_updated_at := now\<rparr>) d1)
               else if should_auto_hide score_data = Some True then
                 Inr (update_resources_where_id resource_id
                        (\<lambda>r. r\<lparr>r_status := Hidden, r_updated_at := now\<rparr>) d1)
               else Inr d1)
            else Inr d1))"

section \<open>Trending calculator\<close>

definition usecs_per_day :: int where
  "usecs_per_day = 86400000000"

text \<open>\<open>INTERVAL 'n days'\<close>, in a session time zone whose days all have 24 hours.\<close>

definition interval_days :: "int \<Rightarrow> int" where
  "interval_days n = n * usecs_per_day"

definition recent_views :: "db \<Rightarrow> timestamp \<Rightarrow> uuid \<Rightarrow> nat" where
  "recent_views d now resources_id =
     length (filter (\<lambda>ui. ui_resource_id ui = Some resources_id
                          \<and> ui_interaction_type ui = ''view''
                          \<and> ui_created_at ui > now - interval_days 7)
                    (user_interactions d))"

definition recent_votes :: "db \<Rightarrow> timestamp \<Rightarrow> uuid \<Rightarrow> nat" where
  "recent_votes d now resources_id =
     length (filter (\<lambda>v. v_resource_id v = resources_id
                         \<and> v_created_at v > now - interval_days 7)
                    (votes d))"

definition recency_bonus :: "timestamp \<Rightarrow> timestamp \<Rightarrow> rat" where
  "recency_bonus now created_at =
     (if created_at > now - interval_days 3 then 5.0
      else if created_at > now - interval_days 7 then 2.0
      else if created_at > now - interval_days 30 then 1.0
      else 0.0)"

definition update_trending_scores :: "db \<Rightarrow> timestamp \<Rightarrow> db" where
  "update_trending_scores d now =
     d\<lparr>resources :=
         map (\<lambda>r. if r_status r = Approved then
                     r\<lparr>r_trending_score :=
                          r_quality_score r * 0.4 +
                          of_nat (recent_views d now (r_id r)) * 0.3 +
                          of_nat (recent_votes d now (r_id r)) * 0.2 +
                          recency_bonus now (r_created_at r) * 0.1,
                       r_updated_at := now\<rparr>
                   else r)
             (resources d)\<rparr>"

section \<open>Recommendation selector\<close>

text \<open>
  PostgreSQL analyses a query before it runs it, and refuses an aggregate whose argument
  calls a set-returning function (\<open>feature_not_supported\<close>). The analysis starts with
  the \<open>WITH\<close> clause. The select list of \<open>user_profile\<close> in
  \<open>get_personalized_recommendations\<close> is \<open>array_agg(DISTINCT r.category)\<close>,
  \<open>array_agg(DISTINCT unnest(r.tags))\<close> and
  \<open>COALESCE(AVG(CASE r.difficulty_level ... END), 2)\<close>.
\<close>

datatype sql_expr =
    Column string
  | Function string sql_expr
  | Aggregate string sql_expr

definition set_returning :: "string \<Rightarrow> bool" where
  "set_returning f = (f = ''unnest'')"

primrec calls_set_returning :: "sql_expr \<Rightarrow> bool" where
  "calls_set_returning (Column c) = False"
| "calls_set_returning (Function f e) = (set_returning f \<or> calls_set_returning e)"
| "calls_set_returning (Aggregate f e) = calls_set_returning e"

primrec set_returning_in_aggregate :: "sql_expr \<Rightarrow> bool" where
  "set_returning_in_aggregate (Column c) = False"
| "set_returning_in_aggregate (Function f e) = set_returning_in_aggregate e"
| "set_returning_in_aggregate (Aggregate f e) =
     (calls_set_returning e \<or> set_returning_in_aggregate e)"

definition user_profile_select_list :: "sql_expr list" where
  "user_profile_select_list =
     [Aggregate ''array_agg'' (Column ''r.category''),
      Aggregate ''array_agg'' (Function ''unnest'' (Column ''r.tags'')),
      Function ''coalesce'' (Aggregate ''avg'' (Function ''case'' (Column ''r.difficulty_level'')))]"

text \<open>
  What the query would compute if the analysis let it through: the profile is an
  aggregate without \<open>GROUP BY\<close>, hence exactly one row; \<open>array_agg\<close> and \<open>AVG\<close> over
  no rows are null; \<open>array_agg(DISTINCT unnest(r.tags))\<close> is read as the distinct tags
  of the joined rows. Where \<open>ORDER BY\<close> leaves rows tied, they keep the order of the
  table.
\<close>

record user_profile =
  liked_categories :: "string list option"
  liked_tags :: "string list option"
  avg_difficulty_preference :: rat

definition difficulty_number :: "difficulty_level \<Rightarrow> int" where
  "difficulty_number l = (case l of Beginner \<Rightarrow> 1 | Intermediate \<Rightarrow> 2 | Advanced \<Rightarrow> 3)"

definition user_profile_rows :: "db \<Rightarrow> timestamp \<Rightarrow> uuid \<Rightarrow> resource list" where
  "user_profile_rows d now target_user_id =
     [r. ui \<leftarrow> user_interactions d,
         r \<leftarrow> resources d, ui_resource_id ui = Some (r_id r),
         v \<leftarrow> votes d, v_resource_id v = r_id r \<and> v_user_id v = target_user_id
                          \<and> v_vote_type v = Up,
         ui_user_id ui = Some target_user_id,
         ui_interaction_type ui \<in> {''view'', ''favorite''},
         ui_created_at ui > now - interval_days 90]"

definition array_agg_distinct :: "'a list \<Rightarrow> 'a list option" where
  "array_agg_distinct xs = (if xs = [] then None else Some (remdups xs))"

definition select_user_profile :: "db \<Rightarrow> timestamp \<Rightarrow> uuid \<Rightarrow> user_profile" where
  "select_user_profile d now target_user_id =
     (let rows = user_profile_rows d now target_user_id
      in \<lparr> liked_categories = array_agg_distinct (map r_category rows),
            liked_tags = array_agg_distinct
                           (concat (map (\<lambda>r. case r_tags r of None \<Rightarrow> [] | Some ts \<Rightarrow> ts) rows)),
            avg_difficulty_preference =
              (if rows = [] then 2
               else of_int (sum_list (map (\<lambda>r. case r_difficulty_level r of
                                                 None \<Rightarrow> 2
                                               | Some l \<Rightarrow> difficulty_number l) rows))
                    / of_nat (length rows)) \<rparr>)"

definition select_user_prefs :: "db \<Rightarrow> uuid \<Rightarrow> user_preference list" where
  "select_user_prefs d target_user_id =
     filter (\<lambda>up. up_user_id up = target_user_id) (user_preferences d)"

text \<open>\<open>ROUND\<close> on a \<open>DECIMAL\<close> rounds halves away from zero.\<close>

definition sql_round :: "rat \<Rightarrow> int" where
  "sql_round x = (if x \<ge> 0 then \<lfloor>x + 1/2\<rfloor> else - \<lfloor>- x + 1/2\<rfloor>)"

definition relevance_score :: "resource \<Rightarrow> user_profile \<Rightarrow> user_preference \<Rightarrow> rat" where
  "relevance_score r profile up =
     (if up_preferred_categories up \<noteq> [] \<and> r_category r \<in> set (up_preferred_categories up)
        then 5.0
      else if (case liked_categories profile of
                 None \<Rightarrow> False | Some cs \<Rightarrow> r_category r \<in> set cs) then 3.0
      else 0.0) * 0.25 +
     (of_nat (length (filter (\<lambda>tag. case liked_tags profile of
                                        None \<Rightarrow> False | Some ts \<Rightarrow> tag \<in> set ts)
                             (case r_tags r of None \<Rightarrow> [] | Some ts \<Rightarrow> ts))) * 0.5) * 0.20 +
     r_quality_score r * 0.25 +
     r_trending_score r * 0.15 +
     (case r_estimated_time_minutes r of
        None \<Rightarrow> 0.5
      | Some t \<Rightarrow> if t \<le> up_max_time_minutes up then 2.0 else 0.0) * 0.10 +
     (case r_difficulty_level r of
        None \<Rightarrow> 0.5
      | Some l \<Rightarrow> if difficulty_number l = sql_round (avg_difficulty_preference profile)
                  then 1.0 else 0.0) * 0.05"

text \<open>The rows of \<open>SELECT resource_id FROM user_interactions WHERE ...\<close>; a null among
  them makes \<open>NOT IN\<close> unknown for every id that is not listed.\<close>

definition viewed_resource_ids :: "db \<Rightarrow> timestamp \<Rightarrow> uuid \<Rightarrow> uuid option list" where
  "viewed_resource_ids d now target_user_id =
     map ui_resource_id
       (filter (\<lambda>ui. ui_user_id ui = Some target_user_id
                     \<and> ui_interaction_type ui = ''view''
                     \<and> ui_created_at ui > now - interval_days 30)
               (user_interactions d))"

definition sql_not_in :: "uuid \<Rightarrow> uuid option list \<Rightarrow> bool" where
  "sql_not_in x ys = (Some x \<notin> set ys \<and> None \<notin> set ys)"

text \<open>\<open>RETURN QUERY\<close> has its query analysed when the procedure first reaches it,
  which is on every call: the procedure raises before it reads a table.\<close>

definition get_personalized_recommendations ::
  "db \<Rightarrow> timestamp \<Rightarrow> uuid \<Rightarrow> nat \<Rightarrow> bool \<Rightarrow> error + (uuid \<times> rat) list" where
  "get_personalized_recommendations d now target_user_id limit_count exclude_viewed =
     (if filter set_returning_in_aggregate user_profile_select_list \<noteq> []
      then Inl Feature_not_supported
      else Inr
       (take limit_count
         (sort_key (\<lambda>row. - snd row)
            [(r_id r, relevance_score r profile up).
               r \<leftarrow> resources d,
               profile \<leftarrow> [select_user_profile d now target_user_id],
               up \<leftarrow> select_user_prefs d target_user_id,
               r_status r = Approved,
               up_excluded_categories up = [] \<or> r_category r \<notin> set (up_excluded_categories up),
               \<not> exclude_viewed
                 \<or> sql_not_in (r_id r) (viewed_resource_ids d now target_user_id)])))"

text \<open>The discovery route. A filter is applied when its parameter is truthy. The helper
  of the personalized strategy takes only \<open>data\<close> from the answer of the procedure call,
  and \<open>data\<close> is null when the call failed.\<close>

datatype discovery_algorithm = Personalized | Popular | Recent | Random

record discover_query =
  q_algorithm :: discovery_algorithm
  q_category :: "string option"
  q_difficulty :: "difficulty_level option"
  q_max_time :: "int option"
  q_exclude_viewed :: bool
  q_exclude_ids :: "uuid list"
  q_limit :: nat

record discover_row =
  row_resource :: resource
  row_relevance_score :: "rat option"

record discover_response =
  data :: "discover_row list"
  algorithm_used :: discovery_algorithm

definition apply_filters ::
  "string option \<Rightarrow> difficulty_level option \<Rightarrow> int option \<Rightarrow> resource \<Rightarrow> bool" where
  "apply_filters category difficulty maxTime r =
     ((case category of
         None \<Rightarrow> True | Some c \<Rightarrow> c = [] \<or> r_category r = c) \<and>
      (case difficulty of
         None \<Rightarrow> True | Some l \<Rightarrow> r_difficulty_level r = Some l) \<and>
      (case maxTime of
         None \<Rightarrow> True
       | Some m \<Rightarrow> m = 0 \<or> (case r_estimated_time_minutes r of
                               None \<Rightarrow> False | Some t \<Rightarrow> t \<le> m)))"

definition getPersonalizedRecommendations ::
  "db \<Rightarrow> timestamp \<Rightarrow> uuid \<Rightarrow> nat \<Rightarrow> bool \<Rightarrow> uuid list \<Rightarrow> string option \<Rightarrow>
   difficulty_level option \<Rightarrow> int option \<Rightarrow> discover_row list" where
  "getPersonalizedRecommendations d now userId limit excludeViewed excludeIds
       category difficulty maxTime =
     (case get_personalized_recommendations d now userId (limit * 2) excludeViewed of
        Inl e \<Rightarrow> []
      | Inr recommendations \<Rightarrow>
         if recommendations = [] then []
         else
           (let resourceIds = map fst recommendations;
                rs = filter (\<lambda>r. r_id r \<in> set resourceIds \<and> r_status r = Approved
                                 \<and> apply_filters category difficulty maxTime r
                                 \<and> r_id r \<notin> set excludeIds)
                            (resources d);
                resourcesWithScores =
                  sort_key (\<lambda>x. - (case row_relevance_score x of None \<Rightarrow> 0 | Some s \<Rightarrow> s))
                    (map (\<lambda>r. \<lparr> row_resource = r,
                                row_relevance_score =
                                  Some (case find (\<lambda>rc. fst rc = r_id r) recommendations of
                                          None \<Rightarrow> 0 | Some rc \<Rightarrow> snd rc) \<rparr>) rs)
            in take limit resourcesWithScores))"

definition getPopularContent ::
  "db \<Rightarrow> nat \<Rightarrow> uuid list \<Rightarrow> string option \<Rightarrow> difficulty_level option \<Rightarrow> int option \<Rightarrow>
   discover_row list" where
  "getPopularContent d limit excludeIds category difficulty maxTime =
     map (\<lambda>r. \<lparr> row_resource = r, row_relevance_score = None \<rparr>)
       (take limit
          (sort_key (\<lambda>r. - r_quality_score r)
             (filter (\<lambda>r. r_status r = Approved
                          \<and> apply_filters category difficulty maxTime r
                          \<and> r_id r \<notin> set excludeIds)
                     (resources d))))"

definition getRecentContent ::
  "db \<Rightarrow> nat \<Rightarrow> uuid list \<Rightarrow> string option \<Rightarrow> difficulty_level option \<Rightarrow> int option \<Rightarrow>
   discover_row list" where
  "getRecentContent d limit excludeIds category difficulty maxTime =
     map (\<lambda>r. \<lparr> row_resource = r, row_relevance_score = None \<rparr>)
       (take limit
          (sort_key (\<lambda>r. - r_created_at r)
             (filter (\<lambda>r. r_status r = Approved
                          \<and> r_quality_score r \<ge> 0
                          \<and> apply_filters category difficulty maxTime r
                          \<and> r_id r \<notin> set excludeIds)
                     (resources d))))"

text \<open>\<open>GET /api/discover\<close>. The random strategy draws from \<open>RANDOM()\<close> and
  \<open>Math.random()\<close>; what it returns is the parameter \<open>randomContent\<close>.\<close>

definition discover_GET ::
  "db \<Rightarrow> timestamp \<Rightarrow> uuid option \<Rightarrow> discover_query \<Rightarrow> discover_row list \<Rightarrow>
   discover_response" where
  "discover_GET d now userId query randomContent =
     (case (if q_algorithm query = Personalized then userId else None) of
        Some uid \<Rightarrow>
          (let rs = getPersonalizedRecommendations d now uid (q_limit query)
                      (q_exclude_viewed query) (q_exclude_ids query)
                      (q_category query) (q_difficulty query) (q_max_time query)
           in if length rs = 0 then
                \<lparr> data = getPopularContent d (q_limit query) (q_exclude_ids query)
                           (q_category query) (q_difficulty query) (q_max_time query),
                  algorithm_used = Popular \<rparr>
              else \<lparr> data = rs, algorithm_used = q_algorithm query \<rparr>)
      | None \<Rightarrow>
          if q_algorithm query = Popular then
            \<lparr> data = getPopularContent d (q_limit query) (q_exclude_ids query)
                       (q_category query) (q_difficulty query) (q_max_time query),
              algorithm_used = q_algorithm query \<rparr>
          else if q_algorithm query = Recent then
            \<lparr> data = getRecentContent d (q_limit query) (q_exclude_ids query)
                       (q_category query) (q_difficulty query) (q_max_time query),
              algorithm_used = q_algorithm query \<rparr>
          else \<lparr> data = randomContent, algorithm_used = Random \<rparr>)"

section \<open>User reputation and the trigger on votes\<close>

text \<open>
  An unqualified name in an SQL statement of a PL/pgSQL function may be a variable or a
  parameter of the function, or a column of a table of the statement. With the default
  \<open>plpgsql.variable_conflict = error\<close>, a name that is both raises
  \<open>ambiguous_column\<close> when the statement is first run. The target of \<open>SET\<close> and of
  \<open>INTO\<close> is no such reference.
\<close>

definition ambiguous_references :: "string list \<Rightarrow> string list \<Rightarrow> string list \<Rightarrow> string list" where
  "ambiguous_references variables columns names =
     filter (\<lambda>n. n \<in> set variables \<and> n \<in> set columns) names"

definition users_columns :: "string list" where
  "users_columns =
     [''id'', ''farcaster_id'', ''farcaster_username'', ''eth_address'', ''email'',
      ''username'', ''display_name'', ''avatar_url'', ''bio'', ''reputation_score'',
      ''total_submissions'', ''total_upvotes'', ''total_downvotes'',
      ''total_rewards_earned'', ''is_admin'', ''is_suspended'', ''last_active_at'',
      ''created_at'', ''updated_at'']"

text \<open>\<open>update_user_reputation\<close> declares the variable \<open>reputation_score\<close>, selects the
  new score into it, and then runs
  \<open>UPDATE users SET reputation_score = COALESCE(reputation_score, 0), updated_at = NOW()
  WHERE id = target_user_id\<close>, whose expressions name \<open>reputation_score\<close>, \<open>id\<close> and
  \<open>target_user_id\<close>.\<close>

definition update_user_reputation :: "db \<Rightarrow> timestamp \<Rightarrow> uuid \<Rightarrow> error + db" where
  "update_user_reputation d now target_user_id =
     (let content_points =
            sum_list (map (\<lambda>r. min (r_quality_score r * 5) 50)
                          (filter (\<lambda>r. r_submitted_by r = Some target_user_id
                                       \<and> r_status r \<in> {Approved, Pending})
                                  (resources d)));
          voting_points =
            min (int (length (filter (\<lambda>v. v_user_id v = target_user_id) (votes d)))) 100;
          engagement_points =
            min (of_nat (length (filter (\<lambda>ui. ui_user_id ui = Some target_user_id)
                                        (user_interactions d))) * 0.1) (50 :: rat);
          reputation_score =
            sql_round (content_points + of_int voting_points + engagement_points)
      in if ambiguous_references [''target_user_id'', ''reputation_score''] users_columns
              [''reputation_score'', ''id'', ''target_user_id''] \<noteq> []
         then Inl Ambiguous_column
         else Inr (d\<lparr>users := map (\<lambda>u. if u_id u = target_user_id
                                         then u\<lparr>u_reputation_score := reputation_score,
                                                u_updated_at := now\<rparr>
                                         else u)
                                   (users d)\<rparr>))"

text \<open>\<open>TG_OP\<close> with the rows \<open>NEW\<close> and \<open>OLD\<close> it comes with. An error in a procedure
  that the trigger function performs leaves the trigger function.\<close>

datatype tg_event = TG_INSERT vote | TG_UPDATE vote vote | TG_DELETE vote

fun trigger_update_resource_scores :: "db \<Rightarrow> timestamp \<Rightarrow> tg_event \<Rightarrow> error + db" where
  "trigger_update_resource_scores d now (TG_INSERT new) =
     (case update_resource_scores d now (v_resource_id new) of
        Inl e \<Rightarrow> Inl e
      | Inr d1 \<Rightarrow> update_user_reputation d1 now (v_user_id new))"
| "trigger_update_resource_scores d now (TG_UPDATE new old) =
     (case update_resource_scores d now (v_resource_id new) of
        Inl e \<Rightarrow> Inl e
      | Inr d1 \<Rightarrow> update_user_reputation d1 now (v_user_id new))"
| "trigger_update_resource_scores d now (TG_DELETE old) =
     (case update_resource_scores d now (v_resource_id old) of
        Inl e \<Rightarrow> Inl e
      | Inr d1 \<Rightarrow> update_user_reputation d1 now (v_user_id old))"

text \<open>\<open>update_scores_on_vote_change\<close>: after a statement on \<open>votes\<close>, the trigger
  function runs once for each row the statement touched. When it raises, the statement
  fails and its changes are undone: the database is the one before the statement.\<close>

fun update_scores_on_vote_change :: "db \<Rightarrow> timestamp \<Rightarrow> tg_event list \<Rightarrow> error + db" where
  "update_scores_on_vote_change d now [] = Inr d"
| "update_scores_on_vote_change d now (ev # evs) =
     (case trigger_update_resource_scores d now ev of
        Inl e \<Rightarrow> Inl e
      | Inr d1 \<Rightarrow> update_scores_on_vote_change d1 now evs)"

definition insert_vote :: "db \<Rightarrow> timestamp \<Rightarrow> vote \<Rightarrow> error + db" where
  "insert_vote d now new =
     (if v_id new \<in> set (map v_id (votes d))
         \<or> (v_resource_id new, v_user_id new)
              \<in> set (map (\<lambda>v. (v_resource_id v, v_user_id v)) (votes d))
      then Inl Unique_violation
      else update_scores_on_vote_change (d\<lparr>votes := votes d @ [new]\<rparr>) now [TG_INSERT new])"

definition update_vote_where_id ::
  "db \<Rightarrow> timestamp \<Rightarrow> uuid \<Rightarrow> (vote \<Rightarrow> vote) \<Rightarrow> error + db" where
  "update_vote_where_id d now vid f =
     update_scores_on_vote_change
       (d\<lparr>votes := map (\<lambda>v. if v_id v = vid then f v else v) (votes d)\<rparr>) now
       (map (\<lambda>old. TG_UPDATE (f old) old) (filter (\<lambda>v. v_id v = vid) (votes d)))"

definition delete_vote_where_id :: "db \<Rightarrow> timestamp \<Rightarrow> uuid \<Rightarrow> error + db" where
  "delete_vote_where_id d now vid =
     update_scores_on_vote_change
       (d\<lparr>votes := filter (\<lambda>v. v_id v \<noteq> vid) (votes d)\<rparr>) now
       (map TG_DELETE (filter (\<lambda>v. v_id v = vid) (votes d)))"

section \<open>The voting route\<close>

text \<open>\<open>.single()\<close> yields the row when the query has exactly one, and no data otherwise.\<close>

fun single :: "'a list \<Rightarrow> 'a option" where
  "single [x] = Some x"
| "single _ = None"

text \<open>The rows of \<open>votes\<close> with \<open>resource_id\<close> and \<open>user_id\<close> as given.\<close>

definition votes_of :: "db \<Rightarrow> uuid \<Rightarrow> uuid \<Rightarrow> vote list" where
  "votes_of d user_id resource_id =
     filter (\<lambda>v. v_resource_id v = resource_id \<and> v_user_id v = user_id) (votes d)"

datatype vote_action = Created | Updated | Removed

record vote_result =
  action :: vote_action
  vote_type :: "vote_type option"

text \<open>\<open>userProfile?.reputation_score || 0\<close>, the profile being the single \<open>users\<close> row
  of the id.\<close>

definition userReputationScore :: "db \<Rightarrow> uuid \<Rightarrow> int" where
  "userReputationScore d user_id =
     (case single (filter (\<lambda>u. u_id u = user_id) (users d)) of
        None \<Rightarrow> 0
      | Some userProfile \<Rightarrow> u_reputation_score userProfile)"

text \<open>
  A JavaScript number is an IEEE 754 double, here the rational it stands for.
  \<open>double x\<close> is the double nearest to \<open>x\<close>, a tie going to the even significand: a
  significand has 53 bits, so the last place of a number from \<open>2 ^ e\<close> up to
  \<open>2 ^ (e + 1)\<close> is worth \<open>2 ^ (e - 52)\<close>. The numbers of the route lie far inside the
  normal range. The literal \<open>0.1\<close> is \<open>double (1 / 10)\<close>, and every product and sum is
  rounded.
\<close>

definition pow2 :: "int \<Rightarrow> rat" where
  "pow2 e = (if 0 \<le> e then 2 ^ nat e else 1 / 2 ^ nat (- e))"

definition floor_log2 :: "rat \<Rightarrow> int" where
  "floor_log2 a =
     (if 1 \<le> a then bitlen \<lfloor>a\<rfloor> - 1 else - bitlen (\<lceil>1 / a\<rceil> - 1))"

definition round_half_even :: "rat \<Rightarrow> int" where
  "round_half_even x =
     (let f = \<lfloor>x\<rfloor>; r = x - of_int f
      in if r < 1 / 2 then f
         else if 1 / 2 < r then f + 1
         else if even f then f else f + 1)"

definition double :: "rat \<Rightarrow> rat" where
  "double x =
     (if x = 0 then 0
      else (let e = floor_log2 \<bar>x\<bar>;
                ulp = pow2 (e - 52)
            in sgn x * of_int (round_half_even (\<bar>x\<bar> / ulp)) * ulp))"

text \<open>\<open>Math.min((reputationScore * 0.1) + 1, 5.0)\<close>.\<close>

definition voteWeight :: "int \<Rightarrow> rat" where
  "voteWeight reputationScore =
     min (double (double (double (of_int reputationScore) * double (1 / 10)) + 1)) 5"

text \<open>The steps of \<open>POST /api/votes\<close> after the vote is written: the scores are
  recomputed through the scorer, and the verdict is applied when the status read at the
  start of the request was pending. A failed call of the scorer skips the step. The
  trigger \<open>update_resources_updated_at\<close> stamps \<open>updated_at\<close> on every row it updates.\<close>

definition update_scores_after_vote :: "db \<Rightarrow> timestamp \<Rightarrow> resource \<Rightarrow> uuid \<Rightarrow> db" where
  "update_scores_after_vote d now resource resource_id =
     (case calculate_quality_score d resource_id of
        Inl e \<Rightarrow> d
      | Inr scoreResult \<Rightarrow>
        (let d1 = update_resources_where_id resource_id
                    (\<lambda>r. r\<lparr>r_upvotes := upvotes scoreResult,
                            r_downvotes := downvotes scoreResult,
                            r_quality_score := weighted_score scoreResult,
                            r_updated_at := now\<rparr>) d
         in if r_status resource = Pending then
              (if should_auto_approve scoreResult = Some True then
                 update_resources_where_id resource_id
                   (\<lambda>r. r\<lparr>r_status := Approved, r_updated_at := now\<rparr>) d1
               else if should_auto_hide scoreResult = Some True then
                 update_resources_where_id resource_id
                   (\<lambda>r. r\<lparr>r_status := Hidden, r_updated_at := now\<rparr>) d1
               else d1)
            else d1))"

text \<open>The vote counts of the user: for a created vote the route builds the new count
  with \<open>supabase.raw\<close>. The Supabase client has no \<open>raw\<close>, so the call throws a
  \<open>TypeError\<close> before any statement is sent.\<close>

definition update_user_vote_counts ::
  "db \<Rightarrow> timestamp \<Rightarrow> uuid \<Rightarrow> vote_result \<Rightarrow> vote_type \<Rightarrow> error + db" where
  "update_user_vote_counts d now user_id voteResult vt =
     (if action voteResult = Created then Inl TypeError else Inr d)"

text \<open>\<open>POST /api/votes\<close>: the database after the request, and the error response or
  the \<open>data\<close> of the success response. A statement that fails leaves the database as it
  was; an exception in the handler is caught and answered with 500, the statements sent
  before it staying in force. The weight travels to the database as a decimal numeral of
  the double.\<close>

definition votes_POST ::
  "db \<Rightarrow> timestamp \<Rightarrow> uuid \<Rightarrow> uuid option \<Rightarrow> uuid \<Rightarrow> vote_type \<Rightarrow>
   db \<times> (error + vote_result)" where
  "votes_POST d now new_id user resource_id vt =
     (case user of
        None \<Rightarrow> (d, Inl (Http ''Authentication required'' 401))
      | Some user_id \<Rightarrow>
     (case single (filter (\<lambda>r. r_id r = resource_id) (resources d)) of
        None \<Rightarrow> (d, Inl (Http ''Resource not found'' 404))
      | Some resource \<Rightarrow>
        if r_status resource \<notin> {Approved, Pending} then
          (d, Inl (Http ''Cannot vote on this resource'' 400))
        else if r_submitted_by resource = Some user_id then
          (d, Inl (Http ''Cannot vote on your own submission'' 400))
        else
          (let w = voteWeight (userReputationScore d user_id);
               existingVote = single (votes_of d user_id resource_id);
               finish = (\<lambda>d1 voteResult.
                 (let d2 = update_scores_after_vote d1 now resource resource_id
                  in case update_user_vote_counts d2 now user_id voteResult vt of
                       Inl e \<Rightarrow> (d2, Inl (Http ''Internal server error'' 500))
                     | Inr d3 \<Rightarrow> (d3, Inr voteResult)))
           in case existingVote of
                Some ev \<Rightarrow>
                  if v_vote_type ev = vt then
                    (case delete_vote_where_id d now (v_id ev) of
                       Inl e \<Rightarrow> (d, Inl (Http ''Failed to remove vote'' 500))
                     | Inr d1 \<Rightarrow> finish d1 \<lparr> action = Removed, vote_type = None \<rparr>)
                  else
                    (case update_vote_where_id d now (v_id ev)
                            (\<lambda>v. v\<lparr>v_vote_type := vt, v_weight := w, v_updated_at := now\<rparr>) of
                       Inl e \<Rightarrow> (d, Inl (Http ''Failed to update vote'' 500))
                     | Inr d1 \<Rightarrow> finish d1 \<lparr> action = Updated, vote_type = Some vt \<rparr>)
              | None \<Rightarrow>
                  (case insert_vote d now
                          \<lparr> v_id = new_id, v_resource_id = resource_id, v_user_id = user_id,
                            v_vote_type = vt, v_weight = w,
                            v_created_at = now, v_updated_at = now \<rparr> of
                     Inl e \<Rightarrow> (d, Inl (Http ''Failed to create vote'' 500))
                   | Inr d1 \<Rightarrow> finish d1 \<lparr> action = Created, vote_type = Some vt \<rparr>))))"

section \<open>Reward distributor\<close>

text \<open>\<open>date::TIMESTAMP\<close> is midnight of the day.\<close>

definition date_timestamp :: "date \<Rightarrow> timestamp" where
  "date_timestamp day = day * usecs_per_day"

definition in_week :: "date \<Rightarrow> resource \<Rightarrow> bool" where
  "in_week week_start_date r =
     (r_created_at r \<ge> date_timestamp week_start_date
      \<and> r_created_at r \<le> date_timestamp (week_start_date + 6) + interval_days 1)"

text \<open>The rows of \<open>ranked_content\<close>: the window function numbers them in the order of
  \<open>quality_score DESC, created_at ASC\<close>, and they leave it in that order, so
  \<open>LIMIT 10\<close> keeps the ranks 1 to 10.\<close>

definition ranked_content :: "db \<Rightarrow> date \<Rightarrow> (resource \<times> int) list" where
  "ranked_content d week_start_date =
     (let rows = sort_key (\<lambda>r. (- r_quality_score r, r_created_at r))
                   (filter (\<lambda>r. in_week week_start_date r
                                \<and> r_status r = Approved
                                \<and> r_quality_score r > 0)
                           (resources d))
      in take 10 (zip rows (map int [1 ..< Suc (length rows)])))"

definition reward_amount :: "rat \<Rightarrow> int \<Rightarrow> rat" where
  "reward_amount total_pool rank =
     (if rank = 1 then total_pool * 0.30
      else if rank = 2 then total_pool * 0.20
      else if rank = 3 then total_pool * 0.15
      else if rank = 4 then total_pool * 0.10
      else if rank = 5 then total_pool * 0.08
      else total_pool * 0.034)"

text \<open>The rows that \<open>INSERT INTO reward_distributions ... SELECT ... FROM reward_amounts\<close>
  adds.\<close>

definition reward_distribution_rows ::
  "db \<Rightarrow> date \<Rightarrow> rat \<Rightarrow> uuid \<Rightarrow> reward_distribution list" where
  "reward_distribution_rows d week_start_date total_pool reward_id =
     map (\<lambda>(r, rank).
            \<lparr> rd_weekly_reward_id = reward_id,
              rd_user_id = r_submitted_by r,
              rd_resource_id = r_id r,
              rd_amount = reward_amount total_pool rank,
              rd_rank = rank,
              rd_quality_score = r_quality_score r \<rparr>)
         (ranked_content d week_start_date)"

text \<open>\<open>SELECT COALESCE(SUM(submission_amount), 0) * (distribution_percentage / 100)\<close>
  over the paid submissions of the week, for a percentage that is not null. The quotient
  is the exact one, as \<open>DECIMAL\<close> division gives it for a percentage of up to 14
  decimals.\<close>

definition total_pool_of :: "db \<Rightarrow> date \<Rightarrow> rat \<Rightarrow> rat" where
  "total_pool_of d week_start_date distribution_percentage =
     sum_list (map r_submission_amount
                (filter (\<lambda>r. in_week week_start_date r \<and> r_submission_tx_hash r \<noteq> None)
                        (resources d)))
     * (distribution_percentage / 100)"

text \<open>\<open>calculate_weekly_rewards\<close>; \<open>new_id\<close> is what \<open>gen_random_uuid()\<close> draws for the
  new \<open>weekly_rewards\<close> row. A null pool violates \<open>NOT NULL\<close> on
  \<open>total_pool_amount\<close>.\<close>

definition calculate_weekly_rewards ::
  "db \<Rightarrow> timestamp \<Rightarrow> uuid \<Rightarrow> date \<Rightarrow> error + db \<times> uuid" where
  "calculate_weekly_rewards d now new_id week_start_date =
     (let week_end_date = week_start_date + 6
      in case select_config_into cast_decimal d ''weekly_distribution_percentage'' of
           Inl e \<Rightarrow> Inl e
         | Inr distribution_percentage \<Rightarrow>
           (case map_option (total_pool_of d week_start_date) distribution_percentage of
              None \<Rightarrow> Inl Not_null_violation
            | Some total_pool \<Rightarrow>
                if new_id \<in> set (map wr_id (weekly_rewards d)) then Inl Unique_violation
                else
                  (let reward_id = new_id;
                       d1 = d\<lparr>weekly_rewards := weekly_rewards d @
                               [\<lparr> wr_id = reward_id,
                                  wr_week_start = week_start_date,
                                  wr_week_end = week_end_date,
                                  wr_total_pool_amount = total_pool,
                                  wr_calculation_completed_at = None \<rparr>]\<rparr>;
                       d2 = d1\<lparr>reward_distributions := reward_distributions d1 @
                               reward_distribution_rows d1 week_start_date total_pool reward_id\<rparr>;
                       d3 = d2\<lparr>weekly_rewards :=
                               map (\<lambda>w. if wr_id w = reward_id
                                         then w\<lparr>wr_calculation_completed_at := Some now\<rparr>
                                         else w)
                                   (weekly_rewards d2)\<rparr>
                   in Inr (d3, reward_id))))"

section \<open>Runs of the procedures\<close>

text \<open>A history of score recomputations: before each run the votes, the users and the
  configuration may have become anything; a run that raises changes nothing.\<close>

fun rescore_history ::
  "db \<Rightarrow> (timestamp \<times> uuid \<times> vote list \<times> user list \<times> (string \<times> jsonb) list) list \<Rightarrow> db" where
  "rescore_history d [] = d"
| "rescore_history d ((now, resource_id, vs, us, cfg) # h) =
     (case update_resource_scores (d\<lparr>votes := vs, users := us, system_config := cfg\<rparr>)
             now resource_id of
        Inl e \<Rightarrow> rescore_history d h
      | Inr d1 \<Rightarrow> rescore_history d1 h)"

text \<open>Each of the scorer's three \<open>SELECT ... INTO\<close> goes through: the key is absent, or
  its value casts.\<close>

definition config_casts :: "db \<Rightarrow> bool" where
  "config_casts d =
     (\<not> isl (select_config_into cast_decimal d ''auto_approve_threshold'')
      \<and> \<not> isl (select_config_into cast_decimal d ''auto_hide_threshold'')
      \<and> \<not> isl (select_config_into cast_int d ''min_votes_for_auto_action''))"

definition config_key_absent :: "db \<Rightarrow> string \<Rightarrow> bool" where
  "config_key_absent d k = (map_of (system_config d) k = None)"

section \<open>The voter's contribution, as the specification words it\<close>

definition voter_reputation :: "db \<Rightarrow> vote \<Rightarrow> int" where
  "voter_reputation d v =
     (case find (\<lambda>u. u_id u = v_user_id v) (users d) of
        None \<Rightarrow> 0 | Some u \<Rightarrow> u_reputation_score u)"

definition vote_contribution :: "db \<Rightarrow> vote \<Rightarrow> rat" where
  "vote_contribution d v =
     (case v_vote_type v of
        Up \<Rightarrow> min (of_int (voter_reputation d v) * 0.1 + 1) 5.0
      | Down \<Rightarrow> - min (of_int (voter_reputation d v) * 0.1 + 1) 5.0)"

section \<open>Example data\<close>

text \<open>Rows with the defaults of the schema, and the configuration the schema installs.\<close>

definition mk_user :: "uuid \<Rightarrow> int \<Rightarrow> user" where
  "mk_user i reputation =
     \<lparr> u_id = i, u_reputation_score = reputation, u_total_upvotes = 0,
       u_total_downvotes = 0, u_updated_at = 0 \<rparr>"

definition mk_resource :: "uuid \<Rightarrow> resource_status \<Rightarrow> rat \<Rightarrow> rat \<Rightarrow> timestamp \<Rightarrow> resource" where
  "mk_resource i st quality trending created =
     \<lparr> r_id = i, r_category = ''articles'', r_tags = None, r_difficulty_level = None,
       r_estimated_time_minutes = None, r_submitted_by = Some 9,
       r_submission_tx_hash = Some ''0xabc'', r_submission_amount = 1000,
       r_status = st, r_upvotes = 0, r_downvotes = 0, r_quality_score = quality,
       r_trending_score = trending, r_created_at = created, r_updated_at = created \<rparr>"

definition mk_vote :: "uuid \<Rightarrow> uuid \<Rightarrow> uuid \<Rightarrow> vote_type \<Rightarrow> vote" where
  "mk_vote i resource_id user_id vt =
     \<lparr> v_id = i, v_resource_id = resource_id, v_user_id = user_id, v_vote_type = vt,
       v_weight = 1, v_created_at = 0, v_updated_at = 0 \<rparr>"

definition default_config :: "(string \<times> jsonb) list" where
  "default_config =
     [(''auto_approve_threshold'', JNumber 10 0),
      (''auto_hide_threshold'', JNumber (- 5) 0),
      (''min_votes_for_auto_action'', JNumber 3 0),
      (''max_reputation_weight'', JNumber 50 1),
      (''weekly_distribution_percentage'', JNumber 80 0)]"

definition empty_db :: db where
  "empty_db =
     \<lparr> users = [], resources = [], votes = [], user_interactions = [],
       user_preferences = [], weekly_rewards = [], reward_distributions = [],
       system_config = default_config \<rparr>"

text \<open>The scenario of the specification: resource 100, pending, with up-votes from
  voters of reputation 0, 20 and 50.\<close>

definition scenario_db :: db where
  "scenario_db =
     empty_db\<lparr> users := [mk_user 1 0, mk_user 2 20, mk_user 3 50, mk_user 4 10, mk_user 9 0],
               resources := [mk_resource 100 Pending 0 0 0],
               votes := [mk_vote 11 100 1 Up, mk_vote 12 100 2 Up, mk_vote 13 100 3 Up] \<rparr>"

text \<open>A configuration whose approve threshold lies below its hide threshold, and a
  pending resource with one up-vote.\<close>

definition overlap_db :: db where
  "overlap_db =
     empty_db\<lparr> users := [mk_user 1 0, mk_user 9 0],
               resources := [mk_resource 100 Pending 0 0 0],
               votes := [mk_vote 11 100 1 Up],
               system_config := [(''auto_approve_threshold'', JNumber 0 0),
                                 (''auto_hide_threshold'', JNumber 5 0),
                                 (''min_votes_for_auto_action'', JNumber 1 0)] \<rparr>"

text \<open>The scenario before anyone has voted.\<close>

definition no_votes_db :: db where
  "no_votes_db = scenario_db\<lparr> votes := [] \<rparr>"

text \<open>The scenario with an empty configuration store.\<close>

definition unconfigured_db :: db where
  "unconfigured_db = scenario_db\<lparr> system_config := [] \<rparr>"

text \<open>An approved resource whose votes have since fallen below the hide threshold.\<close>

definition approved_db :: db where
  "approved_db =
     scenario_db\<lparr> resources := [mk_resource 100 Approved 0 0 0],
                  votes := [mk_vote 11 100 1 Down, mk_vote 12 100 2 Down,
                            mk_vote 13 100 3 Down] \<rparr>"

text \<open>The scenario with an approve threshold of 5 and no minimum vote count configured.\<close>

definition no_min_votes_db :: db where
  "no_min_votes_db =
     scenario_db\<lparr> system_config := [(''auto_approve_threshold'', JNumber 5 0),
                                    (''auto_hide_threshold'', JNumber (- 5) 0)] \<rparr>"

section \<open>The trending score\<close>

text \<open>The age of a resource, a view or a vote, in microseconds; \<open>n\<close> days are
  \<open>n * 86400000000\<close> of them. The procedure's windows are open at the far end: a row
  is counted while it is younger than \<open>n\<close> days.\<close>

definition younger_than_days :: "timestamp \<Rightarrow> int \<Rightarrow> timestamp \<Rightarrow> bool" where
  "younger_than_days now n t = (now - t < n * 86400000000)"

definition strict_recency_bonus :: "timestamp \<Rightarrow> resource \<Rightarrow> rat" where
  "strict_recency_bonus now r =
     (if younger_than_days now 3 (r_created_at r) then 5
      else if younger_than_days now 7 (r_created_at r) then 2
      else if younger_than_days now 30 (r_created_at r) then 1
      else 0)"

definition strict_trending_score :: "db \<Rightarrow> timestamp \<Rightarrow> resource \<Rightarrow> rat" where
  "strict_trending_score d now r =
     4 / 10 * r_quality_score r
     + 3 / 10 * of_nat (length (filter (\<lambda>ui. ui_resource_id ui = Some (r_id r)
                                            \<and> ui_interaction_type ui = ''view''
                                            \<and> younger_than_days now 7 (ui_created_at ui))
                                      (user_interactions d)))
     + 2 / 10 * of_nat (length (filter (\<lambda>v. v_resource_id v = r_id r
                                           \<and> younger_than_days now 7 (v_created_at v))
                                      (votes d)))
     + 1 / 10 * strict_recency_bonus now r"

text \<open>The trending score as the specification words it: the bonus is 5.0 for a resource
  created at most 3 days ago, 2.0 for at most 7 days, 1.0 for at most 30 days, and a view
  or a vote counts when it lies in the trailing 7 days, the instant \<open>n\<close> days ago
  included.\<close>

definition within_last_days :: "timestamp \<Rightarrow> int \<Rightarrow> timestamp \<Rightarrow> bool" where
  "within_last_days now n t = (now - t \<le> n * 86400000000)"

definition spec_recency_bonus :: "timestamp \<Rightarrow> resource \<Rightarrow> rat" where
  "spec_recency_bonus now r =
     (if within_last_days now 3 (r_created_at r) then 5
      else if within_last_days now 7 (r_created_at r) then 2
      else if within_last_days now 30 (r_created_at r) then 1
      else 0)"

definition spec_trending_score :: "db \<Rightarrow> timestamp \<Rightarrow> resource \<Rightarrow> rat" where
  "spec_trending_score d now r =
     4 / 10 * r_quality_score r
     + 3 / 10 * of_nat (length (filter (\<lambda>ui. ui_resource_id ui = Some (r_id r)
                                            \<and> ui_interaction_type ui = ''view''
                                            \<and> within_last_days now 7 (ui_created_at ui))
                                      (user_interactions d)))
     + 2 / 10 * of_nat (length (filter (\<lambda>v. v_resource_id v = r_id r
                                           \<and> within_last_days now 7 (v_created_at v))
                                      (votes d)))
     + 1 / 10 * spec_recency_bonus now r"

text \<open>An approved resource without views or votes, created at time 0.\<close>

definition boundary_db :: db where
  "boundary_db = empty_db\<lparr> users := [mk_user 9 0],
                           resources := [mk_resource 100 Approved 0 0 0] \<rparr>"

text \<open>Two approved resources and a pending one, with a view and a vote of the last
  week; the clock stands at day 40.\<close>

definition trending_db :: db where
  "trending_db =
     empty_db\<lparr> users := [mk_user 1 0, mk_user 9 0],
               resources := [mk_resource 100 Approved 2 0 (38 * 86400000000),
                             mk_resource 101 Pending 1 0 (38 * 86400000000),
                             mk_resource 102 Approved 0 7 0],
               votes := [(mk_vote 11 100 1 Up)\<lparr> v_created_at := 39 * 86400000000 \<rparr>],
               user_interactions :=
                 [\<lparr> ui_user_id = Some 1, ui_resource_id = Some 100,
                    ui_interaction_type = ''view'', ui_created_at = 39 * 86400000000 \<rparr>,
                  \<lparr> ui_user_id = Some 1, ui_resource_id = Some 100,
                    ui_interaction_type = ''view'', ui_created_at = 0 \<rparr>] \<rparr>"

section \<open>A user's history\<close>

definition interaction_history :: "db \<Rightarrow> uuid \<Rightarrow> user_interaction list" where
  "interaction_history d user_id =
     filter (\<lambda>ui. ui_user_id ui = Some user_id) (user_interactions d)"

definition vote_history :: "db \<Rightarrow> uuid \<Rightarrow> vote list" where
  "vote_history d user_id = filter (\<lambda>v. v_user_id v = user_id) (votes d)"

definition has_preferences :: "db \<Rightarrow> uuid \<Rightarrow> bool" where
  "has_preferences d user_id = (user_id \<in> set (map up_user_id (user_preferences d)))"

text \<open>Two approved resources, one of higher quality and one trending. User 3 has the
  default preferences and no history at all; user 2 has viewed and up-voted resource 100
  and has no preferences row.\<close>

definition discover_db :: db where
  "discover_db =
     empty_db\<lparr> users := [mk_user 3 0, mk_user 2 0, mk_user 9 0],
               resources := [mk_resource 100 Approved 1 0 0, mk_resource 101 Approved 0 10 0],
               votes := [mk_vote 11 100 2 Up],
               user_interactions :=
                 [\<lparr> ui_user_id = Some 2, ui_resource_id = Some 100,
                    ui_interaction_type = ''favorite'', ui_created_at = 0 \<rparr>],
               user_preferences :=
                 [\<lparr> up_user_id = 3, up_preferred_categories = [],
                    up_excluded_categories = [], up_max_time_minutes = 60,
                    up_discovery_algorithm = ''balanced'' \<rparr>] \<rparr>"

definition personalized_query :: discover_query where
  "personalized_query =
     \<lparr> q_algorithm = Personalized, q_category = None, q_difficulty = None,
       q_max_time = None, q_exclude_viewed = True, q_exclude_ids = [], q_limit = 1 \<rparr>"

definition popular_query :: discover_query where
  "popular_query = personalized_query\<lparr> q_algorithm := Popular \<rparr>"

section \<open>Eligibility for a week's rewards\<close>

definition eligible :: "date \<Rightarrow> resource \<Rightarrow> bool" where
  "eligible week_start_date r =
     (in_week week_start_date r \<and> r_status r = Approved \<and> r_quality_score r > 0)"

definition weekly_rewards_of :: "db \<Rightarrow> date \<Rightarrow> weekly_reward list" where
  "weekly_rewards_of d week_start_date =
     filter (\<lambda>w. wr_week_start w = week_start_date) (weekly_rewards d)"

text \<open>Eleven approved resources of the week that starts on day 0, of quality 1 to 11,
  and one approved resource of quality 0.\<close>

definition rewards_db :: db where
  "rewards_db =
     empty_db\<lparr> users := [mk_user 9 0],
               resources :=
                 [mk_resource 101 Approved 1 0 10, mk_resource 102 Approved 2 0 20,
                  mk_resource 103 Approved 3 0 30, mk_resource 104 Approved 4 0 40,
                  mk_resource 105 Approved 5 0 50, mk_resource 106 Approved 6 0 60,
                  mk_resource 107 Approved 7 0 70, mk_resource 108 Approved 8 0 80,
                  mk_resource 109 Approved 9 0 90, mk_resource 110 Approved 10 0 100,
                  mk_resource 111 Approved 11 0 110, mk_resource 112 Approved 0 0 120] \<rparr>"

text \<open>One approved resource of quality 2 in the week that starts on day 0, and the
  database after one run of the reward distributor for that week.\<close>

definition week_db :: db where
  "week_db = empty_db\<lparr> users := [mk_user 9 0],
                        resources := [mk_resource 100 Approved 2 0 10] \<rparr>"

definition week_db_processed :: db where
  "week_db_processed =
     week_db\<lparr> weekly_rewards :=
                 [\<lparr> wr_id = 500, wr_week_start = 0, wr_week_end = 6,
                    wr_total_pool_amount = 800,
                    wr_calculation_completed_at = Some 7 \<rparr>],
               reward_distributions :=
                 [\<lparr> rd_weekly_reward_id = 500, rd_user_id = Some 9, rd_resource_id = 100,
                    rd_amount = 240, rd_rank = 1, rd_quality_score = 2 \<rparr>] \<rparr>"

definition week_db_processed_twice :: db where
  "week_db_processed_twice =
     week_db\<lparr> weekly_rewards :=
                 [\<lparr> wr_id = 500, wr_week_start = 0, wr_week_end = 6,
                    wr_total_pool_amount = 800,
                    wr_calculation_completed_at = Some 7 \<rparr>,
                  \<lparr> wr_id = 501, wr_week_start = 0, wr_week_end = 6,
                    wr_total_pool_amount = 800,
                    wr_calculation_completed_at = Some 8 \<rparr>],
               reward_distributions :=
                 [\<lparr> rd_weekly_reward_id = 500, rd_user_id = Some 9, rd_resource_id = 100,
                    rd_amount = 240, rd_rank = 1, rd_quality_score = 2 \<rparr>,
                  \<lparr> rd_weekly_reward_id = 501, rd_user_id = Some 9, rd_resource_id = 100,
                    rd_amount = 240, rd_rank = 1, rd_quality_score = 2 \<rparr>] \<rparr>"

text \<open>What a distribution row awards, apart from the batch it belongs to.\<close>

definition award :: "reward_distribution \<Rightarrow> uuid option \<times> uuid \<times> int \<times> rat \<times> rat" where
  "award x = (rd_user_id x, rd_resource_id x, rd_rank x, rd_amount x, rd_quality_score x)"

section \<open>Evaluation on the example data\<close>

lemmas example_defs =
  scenario_db_def empty_db_def default_config_def mk_user_def mk_resource_def mk_vote_def

lemma calculate_quality_score_scenario:
  "calculate_quality_score scenario_db 100 =
     Inr \<lparr> upvotes = 3, downvotes = 0, weighted_score = 9, voter_count = 3,
           should_auto_approve = Some False, should_auto_hide = Some False \<rparr>"
  by (simp add: calculate_quality_score_def select_config_into_def vote_stats_rows_def
        calculated_score_term_def example_defs)

section \<open>The weighted score\<close>

lemma filter_pkey_single:
  "distinct (map u_id us) \<Longrightarrow> k \<in> set (map u_id us) \<Longrightarrow>
   \<exists>u. filter (\<lambda>u. k = u_id u) us = [u] \<and> find (\<lambda>u. u_id u = k) us = Some u"
proof (induction us)
  case Nil
  then show ?case by simp
next
  case (Cons a us)
  show ?case
  proof (cases "u_id a = k")
    case True
    with Cons.prems have "k \<notin> set (map u_id us)" by auto
    then have "filter (\<lambda>u. k = u_id u) us = []" by (auto simp: filter_empty_conv)
    with True show ?thesis by auto
  next
    case False
    with Cons show ?thesis by auto
  qed
qed

lemma concat_map_if:
  "concat (map (\<lambda>u. if P u then g u else []) us) = concat (map g (filter P us))"
  by (induction us) auto

lemma join_row:
  assumes "distinct (map u_id us)" "v_user_id v \<in> set (map u_id us)"
  shows "sum_list (map calculated_score_term
           (concat (map (\<lambda>u. if v_user_id v = u_id u
                              then if v_resource_id v = rid then [(v, u)] else []
                              else []) us)))
         = (if v_resource_id v = rid then vote_contribution (d\<lparr>users := us\<rparr>) v else 0)"
proof -
  from filter_pkey_single[OF assms] obtain u where
    u: "filter (\<lambda>u. v_user_id v = u_id u) us = [u]"
       "find (\<lambda>u. u_id u = v_user_id v) us = Some u"
    by blast
  show ?thesis
    unfolding concat_map_if u(1)
    by (simp add: calculated_score_term_def vote_contribution_def voter_reputation_def u(2)
          split: vote_type.split)
qed

lemma vote_stats_rows_sum:
  assumes "distinct (map u_id us)" "list_all (\<lambda>v. v_user_id v \<in> set (map u_id us)) vs"
  shows "sum_list (map calculated_score_term
            [(v, u). v \<leftarrow> vs, u \<leftarrow> us, v_user_id v = u_id u, v_resource_id v = rid])
         = sum_list (map (vote_contribution (d\<lparr>users := us\<rparr>))
                      (filter (\<lambda>v. v_resource_id v = rid) vs))"
  using assms(2)
proof (induction vs)
  case Nil
  then show ?case by simp
next
  case (Cons v vs)
  then have "v_user_id v \<in> set (map u_id us)" by simp
  from join_row[OF assms(1) this, of rid d] Cons show ?case
    by simp
qed

lemma calculate_quality_score_weighted:
  "calculate_quality_score d rid = Inr res \<Longrightarrow>
   weighted_score res = sum_list (map calculated_score_term (vote_stats_rows d rid))"
  by (auto simp: calculate_quality_score_def Let_def split: sum.splits)

lemma score_term_magnitude:
  "0 \<le> u_reputation_score (snd vu) \<Longrightarrow>
   \<bar>calculated_score_term vu\<bar> = min (of_int (u_reputation_score (snd vu)) * 0.1 + 1) 5.0"
  by (cases "v_vote_type (fst vu)") (simp_all add: calculated_score_term_def min_def)

lemma config_casts_Inr:
  assumes "config_casts d"
  obtains a h m where
    "select_config_into cast_decimal d ''auto_approve_threshold'' = Inr a"
    "select_config_into cast_decimal d ''auto_hide_threshold'' = Inr h"
    "select_config_into cast_int d ''min_votes_for_auto_action'' = Inr m"
proof -
  from assms obtain a where a: "select_config_into cast_decimal d ''auto_approve_threshold'' = Inr a"
    unfolding config_casts_def by (cases "select_config_into cast_decimal d ''auto_approve_threshold''") auto
  from assms obtain h where h: "select_config_into cast_decimal d ''auto_hide_threshold'' = Inr h"
    unfolding config_casts_def by (cases "select_config_into cast_decimal d ''auto_hide_threshold''") auto
  from assms obtain m where m: "select_config_into cast_int d ''min_votes_for_auto_action'' = Inr m"
    unfolding config_casts_def by (cases "select_config_into cast_int d ''min_votes_for_auto_action''") auto
  from a h m that show thesis by blast
qed

lemma calculate_quality_score_returns:
  assumes "config_casts d"
  shows "\<exists>res. calculate_quality_score d rid = Inr res"
proof -
  from config_casts_Inr[OF assms] obtain a h m where
    "select_config_into cast_decimal d ''auto_approve_threshold'' = Inr a"
    "select_config_into cast_decimal d ''auto_hide_threshold'' = Inr h"
    "select_config_into cast_int d ''min_votes_for_auto_action'' = Inr m"
    by blast
  then show ?thesis
    by (simp add: calculate_quality_score_def Let_def)
qed

lemma config_casts_scenario: "config_casts scenario_db"
  by (simp add: config_casts_def select_config_into_def example_defs)

text \<open>
  Claim C1. In a database that satisfies the primary key of \<open>users\<close> and the foreign key
  from a vote to its voter, and whose three configuration values cast, as they must for
  the scorer to read them, \<open>calculate_quality_score\<close> returns for every resource, and
  the \<open>weighted_score\<close> it returns is the sum, over the votes of that resource, of
  \<open>min (reputation * 0.1 + 1) 5.0\<close> of the voter for an up vote and of its negation for a
  down vote. For a voter of reputation \<open>R \<ge> 0\<close> the magnitude of the term a vote adds
  is \<open>min (0.1 * R + 1) 5.0\<close>, and it is at most 5.0. The weight that the voting route
  computes for a vote, in doubles, is at most 5.0 as well; the scorer does not read it.
\<close>

theorem calculate_quality_score_weighted_sum:
  assumes "users_pkey d" and "votes_user_id_fkey d" and "config_casts d"
  shows "(\<exists>res. calculate_quality_score d resource_id = Inr res
            \<and> weighted_score res =
                sum_list (map (vote_contribution d)
                           (filter (\<lambda>v. v_resource_id v = resource_id) (votes d))))
         \<and> (\<forall>v u. 0 \<le> u_reputation_score u \<longrightarrow>
               \<bar>calculated_score_term (v, u)\<bar>
                 = min (0.1 * of_int (u_reputation_score u) + 1) 5.0
               \<and> \<bar>calculated_score_term (v, u)\<bar> \<le> 5.0)
         \<and> (\<forall>R. voteWeight R \<le> 5.0)"
proof -
  have "d\<lparr>users := users d\<rparr> = d" by simp
  with vote_stats_rows_sum[of "users d" "votes d" resource_id d] assms(1,2)
  have sum: "sum_list (map calculated_score_term (vote_stats_rows d resource_id))
        = sum_list (map (vote_contribution d)
                      (filter (\<lambda>v. v_resource_id v = resource_id) (votes d)))"
    by (simp add: vote_stats_rows_def users_pkey_def votes_user_id_fkey_def)
  from calculate_quality_score_returns[OF assms(3)] obtain res where
    res: "calculate_quality_score d resource_id = Inr res" by blast
  from calculate_quality_score_weighted[OF res] sum res
  have 1: "\<exists>res. calculate_quality_score d resource_id = Inr res
            \<and> weighted_score res =
                sum_list (map (vote_contribution d)
                           (filter (\<lambda>v. v_resource_id v = resource_id) (votes d)))"
    by simp
  have 2: "\<bar>calculated_score_term (v, u)\<bar>
                   = min (0.1 * of_int (u_reputation_score u) + 1) 5.0
                 \<and> \<bar>calculated_score_term (v, u)\<bar> \<le> 5.0"
    if "0 \<le> u_reputation_score u" for v u
    using score_term_magnitude[of "(v, u)"] that by (simp add: mult.commute)
  have 3: "voteWeight R \<le> 5.0" for R
    by (simp add: voteWeight_def)
  from 1 2 3 show ?thesis by blast
qed

theorem calculate_quality_score_weighted_sum_witness:
  "users_pkey scenario_db \<and> votes_user_id_fkey scenario_db \<and> config_casts scenario_db
   \<and> calculate_quality_score scenario_db 100 =
       Inr \<lparr> upvotes = 3, downvotes = 0, weighted_score = 9, voter_count = 3,
             should_auto_approve = Some False, should_auto_hide = Some False \<rparr>
   \<and> sum_list (map (vote_contribution scenario_db)
                 (filter (\<lambda>v. v_resource_id v = 100) (votes scenario_db))) = 9
   \<and> (0::int) \<le> u_reputation_score (mk_user 3 50)
   \<and> \<bar>calculated_score_term (mk_vote 13 100 3 Up, mk_user 3 50)\<bar> = 5"
proof -
  have pk: "users_pkey scenario_db"
    by (simp add: users_pkey_def example_defs)
  have fk: "votes_user_id_fkey scenario_db"
    by (simp add: votes_user_id_fkey_def example_defs)
  have rep: "(0::int) \<le> u_reputation_score (mk_user 3 50)"
    by (simp add: mk_user_def)
  note c1 = calculate_quality_score_weighted_sum[OF pk fk config_casts_scenario, of 100]
  from c1 obtain res where
    res: "calculate_quality_score scenario_db 100 = Inr res"
      "weighted_score res = sum_list (map (vote_contribution scenario_db)
                  (filter (\<lambda>v. v_resource_id v = 100) (votes scenario_db)))"
    by blast
  from res(1) calculate_quality_score_scenario have "weighted_score res = 9"
    by auto
  with res(2)
  have s: "sum_list (map (vote_contribution scenario_db)
                  (filter (\<lambda>v. v_resource_id v = 100) (votes scenario_db))) = 9"
    by simp
  from c1 have "\<forall>v u. 0 \<le> u_reputation_score u \<longrightarrow>
               \<bar>calculated_score_term (v, u)\<bar>
                 = min (0.1 * of_int (u_reputation_score u) + 1) 5.0"
    by blast
  with rep have "\<bar>calculated_score_term (mk_vote 13 100 3 Up, mk_user 3 50)\<bar>
           = min (0.1 * of_int (u_reputation_score (mk_user 3 50)) + 1) 5.0"
    by blast
  then have m: "\<bar>calculated_score_term (mk_vote 13 100 3 Up, mk_user 3 50)\<bar> = 5"
    by (simp add: mk_user_def)
  from pk fk config_casts_scenario calculate_quality_score_scenario s rep m
  show ?thesis by blast
qed

section \<open>A write to the votes never commits\<close>

text \<open>The trigger function calls \<open>update_user_reputation\<close> for every row, and that
  procedure raises on every call; so every statement that touches a row of \<open>votes\<close>
  is undone, and the voting route answers every request with an error and leaves the
  database as it found it.\<close>

lemma update_user_reputation_raises:
  "update_user_reputation d now target_user_id = Inl Ambiguous_column"
  by (simp add: update_user_reputation_def ambiguous_references_def users_columns_def Let_def)

lemma trigger_update_resource_scores_raises:
  "isl (trigger_update_resource_scores d now ev)"
  by (cases ev) (simp_all add: update_user_reputation_raises split: sum.split)

lemma update_scores_on_vote_change_raises:
  "evs \<noteq> [] \<Longrightarrow> isl (update_scores_on_vote_change d now evs)"
proof (cases evs)
  case Nil
  then show "evs \<noteq> [] \<Longrightarrow> ?thesis" by simp
next
  case (Cons ev evs')
  from trigger_update_resource_scores_raises[of d now ev] obtain e where
    "trigger_update_resource_scores d now ev = Inl e"
    by (cases "trigger_update_resource_scores d now ev") auto
  with Cons show ?thesis by simp
qed

lemma insert_vote_raises: "isl (insert_vote d now new)"
  by (simp add: insert_vote_def update_scores_on_vote_change_raises
        del: update_scores_on_vote_change.simps)

lemma update_vote_where_id_raises:
  "ev \<in> set (votes d) \<Longrightarrow> isl (update_vote_where_id d now (v_id ev) f)"
  unfolding update_vote_where_id_def
  by (rule update_scores_on_vote_change_raises) (auto simp: filter_empty_conv)

lemma delete_vote_where_id_raises:
  "ev \<in> set (votes d) \<Longrightarrow> isl (delete_vote_where_id d now (v_id ev))"
  unfolding delete_vote_where_id_def
  by (rule update_scores_on_vote_change_raises) (auto simp: filter_empty_conv)

lemma single_Some_mem: "single xs = Some x \<Longrightarrow> x \<in> set xs"
  by (cases xs rule: single.cases) auto

lemma existingVote_mem:
  "single (votes_of d user_id resource_id) = Some ev \<Longrightarrow> ev \<in> set (votes d)"
  by (drule single_Some_mem) (simp add: votes_of_def)

lemma votes_POST_rolls_back:
  "fst (votes_POST d now new_id user resource_id vt) = d
   \<and> isl (snd (votes_POST d now new_id user resource_id vt))"
proof (cases user)
  case None
  then show ?thesis by (simp add: votes_POST_def)
next
  case (Some user_id)
  show ?thesis
  proof (cases "single (filter (\<lambda>r. r_id r = resource_id) (resources d))")
    case None
    with Some show ?thesis by (simp add: votes_POST_def)
  next
    case (Some resource)
    note res = this
    show ?thesis
    proof (cases "single (votes_of d user_id resource_id)")
      case None
      from insert_vote_raises obtain e where
        "insert_vote d now
           \<lparr> v_id = new_id, v_resource_id = resource_id, v_user_id = user_id,
             v_vote_type = vt, v_weight = voteWeight (userReputationScore d user_id),
             v_created_at = now, v_updated_at = now \<rparr> = Inl e"
        by (metis sum.collapse(1))
      with None res \<open>user = Some user_id\<close> show ?thesis
        by (simp add: votes_POST_def Let_def)
    next
      case (Some ev)
      from existingVote_mem[OF Some] have mem: "ev \<in> set (votes d)" .
      from delete_vote_where_id_raises[OF mem] obtain e1 where
        del: "delete_vote_where_id d now (v_id ev) = Inl e1"
        by (metis sum.collapse(1))
      from update_vote_where_id_raises[OF mem] obtain e2 where
        upd: "update_vote_where_id d now (v_id ev)
                (\<lambda>v. v\<lparr>v_vote_type := vt, v_weight := voteWeight (userReputationScore d user_id),
                        v_updated_at := now\<rparr>) = Inl e2"
        by (metis sum.collapse(1))
      from Some res \<open>user = Some user_id\<close> del upd show ?thesis
        by (simp add: votes_POST_def Let_def)
    qed
  qed
qed

section \<open>The stored procedure changes the status only from pending\<close>

lemmas scorer_defs = calculate_quality_score_def select_config_into_def vote_stats_rows_def calculated_score_term_def


lemma find_pkey_nth:
  "distinct (map r_id rs) \<Longrightarrow> i < length rs \<Longrightarrow> r_id (rs ! i) = k \<Longrightarrow>
   find (\<lambda>r. r_id r = k) rs = Some (rs ! i)"
proof (induction rs arbitrary: i)
  case Nil
  then show ?case by simp
next
  case (Cons a rs)
  show ?case
  proof (cases i)
    case 0
    with Cons.prems show ?thesis by simp
  next
    case (Suc j)
    with Cons.prems have "r_id a \<noteq> k" by (auto simp: nth_mem image_iff)
    with Cons Suc show ?thesis by simp
  qed
qed

lemma update_resources_where_id_simps [simp]:
  "resources (update_resources_where_id k f d) = map (\<lambda>r. if r_id r = k then f r else r) (resources d)"
  "users (update_resources_where_id k f d) = users d"
  "votes (update_resources_where_id k f d) = votes d"
  "system_config (update_resources_where_id k f d) = system_config d"
  by (simp_all add: update_resources_where_id_def)

lemma update_resources_where_id_frame:
  "(update_resources_where_id k f d)\<lparr>resources := rs\<rparr> = d\<lparr>resources := rs\<rparr>"
  by (simp add: update_resources_where_id_def)

text \<open>What one run does to the row at position i.\<close>

lemma update_resource_scores_length:
  "update_resource_scores d now rid = Inr d' \<Longrightarrow> length (resources d') = length (resources d)"
  by (auto simp: update_resource_scores_def Let_def split: sum.splits if_splits)

lemma update_resource_scores_frame:
  "update_resource_scores d now rid = Inr d' \<Longrightarrow> d'\<lparr>resources := resources d\<rparr> = d"
  by (auto simp: update_resource_scores_def Let_def update_resources_where_id_def split: sum.splits if_splits)

lemma update_resource_scores_other:
  assumes "update_resource_scores d now rid = Inr d'" "i < length (resources d)"
    "r_id (resources d ! i) \<noteq> rid"
  shows "resources d' ! i = resources d ! i"
  using assms
  by (auto simp: update_resource_scores_def Let_def split: sum.splits if_splits)

lemma update_resource_scores_not_pending:
  assumes "resources_pkey d" "update_resource_scores d now rid = Inr d'" "i < length (resources d)"
    "r_id (resources d ! i) = rid" "r_status (resources d ! i) \<noteq> Pending"
  shows "\<exists>sd. calculate_quality_score d rid = Inr sd \<and>
     resources d' ! i = (resources d ! i)\<lparr>r_upvotes := upvotes sd, r_downvotes := downvotes sd,
         r_quality_score := weighted_score sd, r_updated_at := now\<rparr>"
proof -
  from assms(1,3,4) have "select_status d rid = Some (r_status (resources d ! i))"
    by (simp add: select_status_def resources_pkey_def find_pkey_nth)
  with assms(5) have "select_status d rid \<noteq> Some Pending" by simp
  with assms(2,3,4) show ?thesis
    by (auto simp: update_resource_scores_def Let_def split: sum.splits if_splits)
qed

lemma update_resource_scores_keeps_status:
  assumes "resources_pkey d" "update_resource_scores d now rid = Inr d'" "i < length (resources d)"
    "r_status (resources d ! i) \<noteq> Pending"
  shows "r_status (resources d' ! i) = r_status (resources d ! i)"
proof (cases "r_id (resources d ! i) = rid")
  case True
  from update_resource_scores_not_pending[OF assms(1,2,3) True assms(4)] show ?thesis by auto
next
  case False
  with update_resource_scores_other[OF assms(2,3)] show ?thesis by simp
qed

lemma update_resource_scores_ids:
  "update_resource_scores d now rid = Inr d' \<Longrightarrow> map r_id (resources d') = map r_id (resources d)"
  by (auto simp: update_resource_scores_def Let_def comp_def split: sum.splits if_splits)

lemma rescore_history_keeps_status:
  "resources_pkey d \<Longrightarrow> i < length (resources d) \<Longrightarrow> r_status (resources d ! i) \<noteq> Pending \<Longrightarrow>
   i < length (resources (rescore_history d h)) \<and>
   r_status (resources (rescore_history d h) ! i) = r_status (resources d ! i)"
proof (induction h arbitrary: d)
  case Nil
  then show ?case by simp
next
  case (Cons a h)
  obtain now rid vs us cfg where a: "a = (now, rid, vs, us, cfg)" by (cases a) 
  let ?d0 = "d\<lparr>votes := vs, users := us, system_config := cfg\<rparr>"
  show ?case
  proof (cases "update_resource_scores ?d0 now rid")
    case (Inl e)
    with Cons a show ?thesis by simp
  next
    case (Inr d1)
    from Cons.prems have pk0: "resources_pkey ?d0" and i0: "i < length (resources ?d0)"
      and s0: "r_status (resources ?d0 ! i) \<noteq> Pending"
      by (simp_all add: resources_pkey_def)
    from update_resource_scores_keeps_status[OF pk0 Inr i0 s0]
    have st: "r_status (resources d1 ! i) = r_status (resources d ! i)" by simp
    from update_resource_scores_ids[OF Inr] pk0 have pk1: "resources_pkey d1"
      by (simp add: resources_pkey_def)
    from update_resource_scores_length[OF Inr] i0 have i1: "i < length (resources d1)" by simp
    from Cons.IH[OF pk1 i1] st Cons.prems(3) Inr a show ?thesis by simp
  qed
qed


lemma update_resources_where_id_status:
  assumes "\<And>r. r_status (f r) = r_status r"
  shows "map r_status (resources (update_resources_where_id k f d)) = map r_status (resources d)"
  by (simp add: update_resources_where_id_def list_eq_iff_nth_eq assms)

lemma update_scores_after_vote_status:
  assumes "r_status resource \<noteq> Pending"
  shows "map r_status (resources (update_scores_after_vote d now resource rid))
         = map r_status (resources d)"
proof (cases "calculate_quality_score d rid")
  case (Inl e)
  then show ?thesis by (simp add: update_scores_after_vote_def)
next
  case (Inr scoreResult)
  have "update_scores_after_vote d now resource rid
        = update_resources_where_id rid
            (\<lambda>r. r\<lparr>r_upvotes := upvotes scoreResult,
                    r_downvotes := downvotes scoreResult,
                    r_quality_score := weighted_score scoreResult,
                    r_updated_at := now\<rparr>) d"
    using assms Inr by (simp add: update_scores_after_vote_def)
  then show ?thesis
    by (simp add: update_resources_where_id_status del: update_resources_where_id_simps)
qed

lemma update_resource_scores_returns:
  assumes "config_casts d"
  shows "\<exists>d'. update_resource_scores d now rid = Inr d'"
proof -
  from calculate_quality_score_returns[OF assms] obtain sd where
    "calculate_quality_score d rid = Inr sd" by blast
  then show ?thesis
    by (simp add: update_resource_scores_def Let_def)
qed

text \<open>
  Claim C2. The stored procedure reads the status before it applies the verdict. When
  \<open>update_resource_scores\<close> runs on a database that satisfies the primary key of
  \<open>resources\<close> and whose configuration values cast, it returns, and a row whose status
  is approved, hidden or rejected keeps its status: of its columns only \<open>upvotes\<close>,
  \<open>downvotes\<close> and \<open>quality_score\<close> are rewritten (and \<open>updated_at\<close> is stamped, as
  on every update), and no other table changes. The status then stays what it was through
  every later history of runs of the procedure. The steps of the voting route that apply
  the verdict change no status when the status the route read was not pending, and a
  request to the route leaves every status as it was.
\<close>

theorem update_resource_scores_status_only_from_pending:
  assumes "resources_pkey d" and "config_casts d"
    and "i < length (resources d)" and "r_status (resources d ! i) \<noteq> Pending"
  shows "(\<exists>d'. update_resource_scores d now resource_id = Inr d'
         \<and> length (resources d') = length (resources d)
         \<and> d'\<lparr>resources := resources d\<rparr> = d
         \<and> r_status (resources d' ! i) = r_status (resources d ! i)
         \<and> (resources d' ! i)\<lparr>r_upvotes := r_upvotes (resources d ! i),
                               r_downvotes := r_downvotes (resources d ! i),
                               r_quality_score := r_quality_score (resources d ! i),
                               r_updated_at := r_updated_at (resources d ! i)\<rparr> = resources d ! i
         \<and> (\<forall>h. r_status (resources (rescore_history d' h) ! i) = r_status (resources d ! i)))
       \<and> (\<forall>resource. r_status resource \<noteq> Pending \<longrightarrow>
             map r_status (resources (update_scores_after_vote d now resource resource_id))
               = map r_status (resources d))
       \<and> (\<forall>new_id user vt.
             map r_status (resources (fst (votes_POST d now new_id user resource_id vt)))
               = map r_status (resources d))"
proof -
  from update_resource_scores_returns[OF assms(2)] obtain d' where
    run: "update_resource_scores d now resource_id = Inr d'" by blast
  have st: "r_status (resources d' ! i) = r_status (resources d ! i)"
    by (rule update_resource_scores_keeps_status[OF assms(1) run assms(3,4)])
  have route: "map r_status (resources (update_scores_after_vote d now resource resource_id))
               = map r_status (resources d)" if "r_status resource \<noteq> Pending" for resource
    using that by (rule update_scores_after_vote_status)
  have post: "map r_status (resources (fst (votes_POST d now new_id user resource_id vt)))
               = map r_status (resources d)" for new_id user vt
    by (simp add: votes_POST_rolls_back)
  have fr: "(resources d' ! i)\<lparr>r_upvotes := r_upvotes (resources d ! i),
                             r_downvotes := r_downvotes (resources d ! i),
                             r_quality_score := r_quality_score (resources d ! i),
                             r_updated_at := r_updated_at (resources d ! i)\<rparr> = resources d ! i"
  proof (cases "r_id (resources d ! i) = resource_id")
    case True
    from update_resource_scores_not_pending[OF assms(1) run assms(3) True assms(4)]
    show ?thesis by auto
  next
    case False
    with update_resource_scores_other[OF run assms(3)] show ?thesis by simp
  qed
  from update_resource_scores_ids[OF run] assms(1) have pk1: "resources_pkey d'"
    by (simp add: resources_pkey_def)
  from update_resource_scores_length[OF run] assms(3) have i1: "i < length (resources d')"
    by simp
  have hist: "r_status (resources (rescore_history d' h) ! i) = r_status (resources d ! i)" for h
    using rescore_history_keeps_status[OF pk1 i1, of h] st assms(4) by simp
  have "update_resource_scores d now resource_id = Inr d'
         \<and> length (resources d') = length (resources d)
         \<and> d'\<lparr>resources := resources d\<rparr> = d
         \<and> r_status (resources d' ! i) = r_status (resources d ! i)
         \<and> (resources d' ! i)\<lparr>r_upvotes := r_upvotes (resources d ! i),
                               r_downvotes := r_downvotes (resources d ! i),
                               r_quality_score := r_quality_score (resources d ! i),
                               r_updated_at := r_updated_at (resources d ! i)\<rparr> = resources d ! i
         \<and> (\<forall>h. r_status (resources (rescore_history d' h) ! i) = r_status (resources d ! i))"
    using run st fr hist update_resource_scores_length[OF run]
      update_resource_scores_frame[OF run]
    by simp
  then have 1: "\<exists>d'. update_resource_scores d now resource_id = Inr d'
         \<and> length (resources d') = length (resources d)
         \<and> d'\<lparr>resources := resources d\<rparr> = d
         \<and> r_status (resources d' ! i) = r_status (resources d ! i)
         \<and> (resources d' ! i)\<lparr>r_upvotes := r_upvotes (resources d ! i),
                               r_downvotes := r_downvotes (resources d ! i),
                               r_quality_score := r_quality_score (resources d ! i),
                               r_updated_at := r_updated_at (resources d ! i)\<rparr> = resources d ! i
         \<and> (\<forall>h. r_status (resources (rescore_history d' h) ! i) = r_status (resources d ! i))"
    by (rule exI)
  from route have 2: "\<forall>resource. r_status resource \<noteq> Pending \<longrightarrow>
             map r_status (resources (update_scores_after_vote d now resource resource_id))
               = map r_status (resources d)" by blast
  from post have 3: "\<forall>new_id user vt.
             map r_status (resources (fst (votes_POST d now new_id user resource_id vt)))
               = map r_status (resources d)" by blast
  from 1 2 3 show ?thesis by (intro conjI)
qed

lemma calculate_quality_score_approved:
  "calculate_quality_score approved_db 100 =
     Inr \<lparr> upvotes = 0, downvotes = 3, weighted_score = - 9, voter_count = 3,
           should_auto_approve = Some False, should_auto_hide = Some True \<rparr>"
  by (simp add: scorer_defs approved_db_def example_defs)

lemma update_resource_scores_approved:
  "update_resource_scores approved_db 7 100 =
     Inr (approved_db\<lparr>resources :=
            [(mk_resource 100 Approved 0 0 0)\<lparr>r_upvotes := 0, r_downvotes := 3,
               r_quality_score := - 9, r_updated_at := 7\<rparr>]\<rparr>)"
  unfolding update_resource_scores_def calculate_quality_score_approved
  by (simp add: select_status_def update_resources_where_id_def approved_db_def example_defs)

lemma config_casts_approved: "config_casts approved_db"
  by (simp add: config_casts_def select_config_into_def approved_db_def example_defs)

theorem update_resource_scores_status_only_from_pending_witness:
  "resources_pkey approved_db \<and> config_casts approved_db
   \<and> update_resource_scores approved_db 7 100 =
       Inr (approved_db\<lparr>resources :=
              [(mk_resource 100 Approved 0 0 0)\<lparr>r_upvotes := 0, r_downvotes := 3,
                 r_quality_score := - 9, r_updated_at := 7\<rparr>]\<rparr>)
   \<and> (0::nat) < length (resources approved_db)
   \<and> r_status (resources approved_db ! 0) = Approved
   \<and> r_status (resources approved_db ! 0) \<noteq> Pending
   \<and> r_status (resources (rescore_history
         (approved_db\<lparr>resources :=
              [(mk_resource 100 Approved 0 0 0)\<lparr>r_upvotes := 0, r_downvotes := 3,
                 r_quality_score := - 9, r_updated_at := 7\<rparr>]\<rparr>)
         [(8, 100, votes approved_db, users approved_db, default_config)]) ! 0) = Approved"
proof -
  define D where "D = approved_db\<lparr>resources :=
              [(mk_resource 100 Approved 0 0 0)\<lparr>r_upvotes := 0, r_downvotes := 3,
                 r_quality_score := - 9, r_updated_at := 7\<rparr>]\<rparr>"
  have pk: "resources_pkey approved_db"
    by (simp add: resources_pkey_def approved_db_def example_defs)
  have i: "(0::nat) < length (resources approved_db)"
    by (simp add: approved_db_def example_defs)
  have st: "r_status (resources approved_db ! 0) = Approved"
    by (simp add: approved_db_def example_defs)
  then have np: "r_status (resources approved_db ! 0) \<noteq> Pending" by simp
  have run: "update_resource_scores approved_db 7 100 = Inr D"
    unfolding D_def by (rule update_resource_scores_approved)
  from update_resource_scores_status_only_from_pending
         [OF pk config_casts_approved i np, of 7 100, THEN conjunct1]
  obtain d' where d': "update_resource_scores approved_db 7 100 = Inr d'"
    and hist: "\<forall>h. r_status (resources (rescore_history d' h) ! 0)
                  = r_status (resources approved_db ! 0)"
    by (elim exE conjE)
  from d' run have "d' = D" by simp
  from hist have "\<forall>h. r_status (resources (rescore_history D h) ! 0)
                  = r_status (resources approved_db ! 0)" unfolding \<open>d' = D\<close> .
  then have "r_status (resources (rescore_history D
               [(8, 100, votes approved_db, users approved_db, default_config)]) ! 0)
             = r_status (resources approved_db ! 0)" by (rule spec)
  with st have h: "r_status (resources (rescore_history D
               [(8, 100, votes approved_db, users approved_db, default_config)]) ! 0)
             = Approved" by (simp only:)
  show ?thesis
    using pk config_casts_approved run i st np h unfolding D_def by (intro conjI)
qed

section \<open>Approval takes precedence over hiding\<close>

lemma find_update_where_id:
  assumes "\<And>r. r_id (f r) = r_id r"
  shows "find (\<lambda>r. r_id r = k) (map (\<lambda>r. if r_id r = k then f r else r) rs)
         = map_option f (find (\<lambda>r. r_id r = k) rs)"
  by (induction rs) (auto simp: assms)

lemma update_where_id_set:
  "r \<in> set (resources (update_resources_where_id k f d)) \<Longrightarrow> r_id r = k \<Longrightarrow>
   (\<And>x. r_id (f x) = r_id x) \<Longrightarrow> \<exists>x. r = f x"
  by (auto simp: update_resources_where_id_def split: if_splits)

lemma select_status_update:
  assumes "\<And>r. r_id (f r) = r_id r"
  shows "select_status (update_resources_where_id k f d) k
         = map_option (\<lambda>r. r_status (f r)) (find (\<lambda>r. r_id r = k) (resources d))"
  by (simp add: select_status_def find_update_where_id[OF assms] option.map_comp comp_def)

lemma calculate_quality_score_overlap:
  "calculate_quality_score overlap_db 100 =
     Inr \<lparr> upvotes = 1, downvotes = 0, weighted_score = 1, voter_count = 1,
           should_auto_approve = Some True, should_auto_hide = Some True \<rparr>"
  by (simp add: scorer_defs overlap_db_def example_defs)

text \<open>
  Claim C9. When the scorer reports both \<open>should_auto_approve\<close> and
  \<open>should_auto_hide\<close> as true for a resource whose status is pending,
  \<open>update_resource_scores\<close> succeeds and leaves the resource approved: every row with
  that id has status approved, none hidden.
\<close>

theorem update_resource_scores_approve_before_hide:
  assumes "select_status d resource_id = Some Pending"
    and "calculate_quality_score d resource_id = Inr score_data"
    and "should_auto_approve score_data = Some True"
    and "should_auto_hide score_data = Some True"
  shows "\<exists>d'. update_resource_scores d now resource_id = Inr d'
              \<and> select_status d' resource_id = Some Approved
              \<and> (\<forall>r \<in> set (resources d'). r_id r = resource_id \<longrightarrow> r_status r = Approved)"
proof -
  let ?d1 = "update_resources_where_id resource_id
               (\<lambda>r. r\<lparr>r_upvotes := upvotes score_data,
                       r_downvotes := downvotes score_data,
                       r_quality_score := weighted_score score_data,
                       r_updated_at := now\<rparr>) d"
  let ?d2 = "update_resources_where_id resource_id
               (\<lambda>r. r\<lparr>r_status := Approved, r_updated_at := now\<rparr>) ?d1"
  have run: "update_resource_scores d now resource_id = Inr ?d2"
    using assms by (simp add: update_resource_scores_def)
  from assms(1) obtain r0 where r0: "find (\<lambda>r. r_id r = resource_id) (resources d) = Some r0"
    by (auto simp: select_status_def)
  have "find (\<lambda>r. r_id r = resource_id) (resources ?d1) \<noteq> None"
    using r0 by (simp add: find_update_where_id)
  then obtain r1 where r1: "find (\<lambda>r. r_id r = resource_id) (resources ?d1) = Some r1"
    by blast
  have "select_status ?d2 resource_id
        = map_option (\<lambda>r. r_status (r\<lparr>r_status := Approved, r_updated_at := now\<rparr>))
            (find (\<lambda>r. r_id r = resource_id) (resources ?d1))"
    by (rule select_status_update) simp
  then have st: "select_status ?d2 resource_id = Some Approved"
    unfolding r1 by simp
  have "r_status r = Approved" if "r \<in> set (resources ?d2)" "r_id r = resource_id" for r
  proof -
    from update_where_id_set[OF that] obtain x
      where "r = x\<lparr>r_status := Approved, r_updated_at := now\<rparr>"
      by auto
    then show ?thesis by simp
  qed
  then have "\<forall>r \<in> set (resources ?d2). r_id r = resource_id \<longrightarrow> r_status r = Approved"
    by blast
  with run st show ?thesis by blast
qed

theorem update_resource_scores_approve_before_hide_witness:
  "select_status overlap_db 100 = Some Pending
   \<and> calculate_quality_score overlap_db 100 =
       Inr \<lparr> upvotes = 1, downvotes = 0, weighted_score = 1, voter_count = 1,
             should_auto_approve = Some True, should_auto_hide = Some True \<rparr>
   \<and> update_resource_scores overlap_db 7 100 =
       Inr (overlap_db\<lparr>resources :=
              [(mk_resource 100 Approved 0 0 0)\<lparr>r_upvotes := 1, r_downvotes := 0,
                 r_quality_score := 1, r_updated_at := 7\<rparr>]\<rparr>)"
proof -
  have st: "select_status overlap_db 100 = Some Pending"
    by (simp add: select_status_def overlap_db_def example_defs)
  from update_resource_scores_approve_before_hide[OF st calculate_quality_score_overlap, of 7]
  obtain d' where d': "update_resource_scores overlap_db 7 100 = Inr d'"
    "select_status d' 100 = Some Approved"
    by auto
  have "update_resource_scores overlap_db 7 100 =
       Inr (overlap_db\<lparr>resources :=
              [(mk_resource 100 Approved 0 0 0)\<lparr>r_upvotes := 1, r_downvotes := 0,
                 r_quality_score := 1, r_updated_at := 7\<rparr>]\<rparr>)"
    unfolding update_resource_scores_def calculate_quality_score_overlap
    by (simp add: select_status_def update_resources_where_id_def overlap_db_def example_defs)
  with st d' calculate_quality_score_overlap show ?thesis by simp
qed

section \<open>Missing configuration\<close>

lemma sql_and_True_iff: "sql_and a b = Some True \<longleftrightarrow> a = Some True \<and> b = Some True"
  by (cases "(a, b)" rule: sql_and.cases) auto

lemma sql_ge_None [simp]: "sql_ge a None = None"
  by (cases a) auto

lemma sql_le_None [simp]: "sql_le a None = None"
  by (cases a) auto

text \<open>The text \<open>3\<close> casts to an integer; \<open>3.0\<close> and \<open>3000000000\<close> do not.\<close>

lemma cast_int_examples:
  "cast_int (JNumber 3 0) = Inr 3
   \<and> cast_int (JNumber 30 1) = Inl Invalid_text_representation
   \<and> cast_int (JNumber 3000000000 0) = Inl Numeric_value_out_of_range
   \<and> cast_decimal (JNumber 30 1) = Inr 3"
  by simp

lemma select_config_into_absent:
  "config_key_absent d k \<Longrightarrow> select_config_into cast d k = Inr None"
  by (simp add: config_key_absent_def select_config_into_def)

text \<open>
  With an empty configuration store the scorer raises nothing: it returns the counts and
  the weighted score of the scenario, and both verdicts are null.
\<close>

theorem calculate_quality_score_missing_config_counterexample:
  "config_key_absent unconfigured_db ''auto_approve_threshold''
   \<and> config_key_absent unconfigured_db ''auto_hide_threshold''
   \<and> config_key_absent unconfigured_db ''min_votes_for_auto_action''
   \<and> calculate_quality_score unconfigured_db 100 =
       Inr \<lparr> upvotes = 3, downvotes = 0, weighted_score = 9, voter_count = 3,
             should_auto_approve = None, should_auto_hide = None \<rparr>"
  by (simp add: config_key_absent_def scorer_defs unconfigured_db_def example_defs)

lemma update_resource_scores_no_approve:
  assumes "calculate_quality_score d rid = Inr res" "should_auto_approve res \<noteq> Some True"
  shows "\<exists>d'. update_resource_scores d now rid = Inr d'
          \<and> (\<forall>i < length (resources d).
                r_status (resources d' ! i) = Approved \<longrightarrow> r_status (resources d ! i) = Approved)"
  using assms by (auto simp: update_resource_scores_def Let_def)

text \<open>
  Claim C5, as the procedure has it. An absent configuration key raises no error: as
  long as the values that are present cast to numbers, \<open>calculate_quality_score\<close> returns
  a result. It substitutes no default for an absent key: the comparison with the absent
  value is null, so \<open>should_auto_approve\<close> is never true when
  \<open>auto_approve_threshold\<close> or \<open>min_votes_for_auto_action\<close> is absent (and
  \<open>update_resource_scores\<close> then turns no row to approved), and \<open>should_auto_hide\<close> is
  never true when \<open>auto_hide_threshold\<close> or \<open>min_votes_for_auto_action\<close> is absent.
\<close>

theorem calculate_quality_score_missing_config:
  assumes "config_casts d"
  shows "\<exists>res. calculate_quality_score d resource_id = Inr res
     \<and> (config_key_absent d ''auto_approve_threshold''
          \<or> config_key_absent d ''min_votes_for_auto_action''
        \<longrightarrow> should_auto_approve res \<noteq> Some True
            \<and> (\<exists>d'. update_resource_scores d now resource_id = Inr d'
                  \<and> (\<forall>i < length (resources d).
                        r_status (resources d' ! i) = Approved
                        \<longrightarrow> r_status (resources d ! i) = Approved)))
     \<and> (config_key_absent d ''auto_hide_threshold''
          \<or> config_key_absent d ''min_votes_for_auto_action''
        \<longrightarrow> should_auto_hide res \<noteq> Some True)"
proof -
  from assms obtain a h m where
    a: "select_config_into cast_decimal d ''auto_approve_threshold'' = Inr a" and
    h: "select_config_into cast_decimal d ''auto_hide_threshold'' = Inr h" and
    m: "select_config_into cast_int d ''min_votes_for_auto_action'' = Inr m"
    unfolding config_casts_def
    by (metis sum.collapse(2))
  have a0: "a = None" if "config_key_absent d ''auto_approve_threshold''"
    using select_config_into_absent[OF that, of cast_decimal] a by simp
  have h0: "h = None" if "config_key_absent d ''auto_hide_threshold''"
    using select_config_into_absent[OF that, of cast_decimal] h by simp
  have m0: "m = None" if "config_key_absent d ''min_votes_for_auto_action''"
    using select_config_into_absent[OF that, of cast_int] m by simp
  have "\<exists>res. calculate_quality_score d resource_id = Inr res
     \<and> (config_key_absent d ''auto_approve_threshold''
          \<or> config_key_absent d ''min_votes_for_auto_action''
        \<longrightarrow> should_auto_approve res \<noteq> Some True)
     \<and> (config_key_absent d ''auto_hide_threshold''
          \<or> config_key_absent d ''min_votes_for_auto_action''
        \<longrightarrow> should_auto_hide res \<noteq> Some True)"
    unfolding calculate_quality_score_def a h m
    using a0 h0 m0 by (auto simp: Let_def sql_and_True_iff)
  then obtain res where res: "calculate_quality_score d resource_id = Inr res"
    "config_key_absent d ''auto_approve_threshold''
       \<or> config_key_absent d ''min_votes_for_auto_action''
     \<longrightarrow> should_auto_approve res \<noteq> Some True"
    "config_key_absent d ''auto_hide_threshold''
       \<or> config_key_absent d ''min_votes_for_auto_action''
     \<longrightarrow> should_auto_hide res \<noteq> Some True"
    by blast
  show ?thesis
    using res update_resource_scores_no_approve[OF res(1), of now] by blast
qed

theorem calculate_quality_score_missing_config_witness:
  "config_casts no_min_votes_db
   \<and> config_key_absent no_min_votes_db ''min_votes_for_auto_action''
   \<and> calculate_quality_score no_min_votes_db 100 =
       Inr \<lparr> upvotes = 3, downvotes = 0, weighted_score = 9, voter_count = 3,
             should_auto_approve = None, should_auto_hide = Some False \<rparr>"
proof -
  have c: "config_casts no_min_votes_db"
    by (simp add: config_casts_def select_config_into_def no_min_votes_db_def example_defs)
  have k: "config_key_absent no_min_votes_db ''min_votes_for_auto_action''"
    by (simp add: config_key_absent_def no_min_votes_db_def example_defs)
  from calculate_quality_score_missing_config[OF c, of 100 7] k obtain res where
    "calculate_quality_score no_min_votes_db 100 = Inr res"
    "should_auto_approve res \<noteq> Some True" "should_auto_hide res \<noteq> Some True"
    by blast
  moreover have "calculate_quality_score no_min_votes_db 100 =
       Inr \<lparr> upvotes = 3, downvotes = 0, weighted_score = 9, voter_count = 3,
             should_auto_approve = None, should_auto_hide = Some False \<rparr>"
    by (simp add: scorer_defs no_min_votes_db_def example_defs)
  ultimately show ?thesis using c k by simp
qed

section \<open>The trending score\<close>

lemma younger_than_days_iff: "younger_than_days now n t \<longleftrightarrow> t > now - interval_days n"
  by (auto simp: younger_than_days_def interval_days_def usecs_per_day_def)

lemma recency_bonus_strict: "recency_bonus now (r_created_at r) = strict_recency_bonus now r"
  by (simp add: recency_bonus_def strict_recency_bonus_def younger_than_days_iff)

lemma trending_expr_strict:
  "r_quality_score r * 0.4 + of_nat (recent_views d now (r_id r)) * 0.3
     + of_nat (recent_votes d now (r_id r)) * 0.2 + recency_bonus now (r_created_at r) * 0.1
   = strict_trending_score d now r"
  by (simp add: strict_trending_score_def recent_views_def recent_votes_def recency_bonus_strict
        younger_than_days_iff)

text \<open>
  Claim C8 fails at the far end of a window. An approved resource without views or votes
  that was created exactly 3 days ago lies within the last 3 days, so that the claimed
  score is \<open>0.1 * 5.0\<close>; \<open>update_trending_scores\<close> gives it the bonus of the next
  window and sets \<open>0.1 * 2.0\<close>. At exactly 7 days it sets \<open>0.1 * 1.0\<close> where the
  claimed score is \<open>0.1 * 2.0\<close>, and at exactly 30 days it sets 0 where the claimed
  score is \<open>0.1 * 1.0\<close>.
\<close>

theorem update_trending_scores_formula_counterexample:
  "r_status (resources boundary_db ! 0) = Approved
   \<and> within_last_days (3 * 86400000000) 3 (r_created_at (resources boundary_db ! 0))
   \<and> spec_trending_score boundary_db (3 * 86400000000) (resources boundary_db ! 0) = 5 / 10
   \<and> r_trending_score (resources (update_trending_scores boundary_db (3 * 86400000000)) ! 0)
       = 2 / 10
   \<and> spec_trending_score boundary_db (7 * 86400000000) (resources boundary_db ! 0) = 2 / 10
   \<and> r_trending_score (resources (update_trending_scores boundary_db (7 * 86400000000)) ! 0)
       = 1 / 10
   \<and> spec_trending_score boundary_db (30 * 86400000000) (resources boundary_db ! 0) = 1 / 10
   \<and> r_trending_score (resources (update_trending_scores boundary_db (30 * 86400000000)) ! 0)
       = 0"
  by (simp add: update_trending_scores_def recency_bonus_def recent_views_def recent_votes_def
        interval_days_def usecs_per_day_def spec_trending_score_def spec_recency_bonus_def
        within_last_days_def boundary_db_def example_defs)

text \<open>
  Claim C8, with the windows the procedure has. \<open>update_trending_scores\<close> keeps every
  row in its place. A row whose status is approved gets
  \<open>trending_score = 0.4 * quality_score + 0.3 * (views younger than 7 days)
  + 0.2 * (votes younger than 7 days) + 0.1 * recency_bonus\<close>, the bonus being 5 for a
  resource created less than 3 days ago, 2 for less than 7 days, 1 for less than 30 days
  and 0 otherwise, and nothing else of it changes but the \<open>updated_at\<close> stamp. A row of
  any other status is left as it is.
\<close>

theorem update_trending_scores_formula:
  "length (resources (update_trending_scores d now)) = length (resources d)
   \<and> (\<forall>i < length (resources d).
        (r_status (resources d ! i) = Approved \<longrightarrow>
           r_trending_score (resources (update_trending_scores d now) ! i)
             = strict_trending_score d now (resources d ! i)
           \<and> (resources (update_trending_scores d now) ! i)
                \<lparr>r_trending_score := r_trending_score (resources d ! i),
                 r_updated_at := r_updated_at (resources d ! i)\<rparr> = resources d ! i)
        \<and> (r_status (resources d ! i) \<noteq> Approved \<longrightarrow>
             resources (update_trending_scores d now) ! i = resources d ! i))"
  unfolding update_trending_scores_def trending_expr_strict by simp

theorem update_trending_scores_formula_witness:
  "(0::nat) < length (resources trending_db)
   \<and> r_status (resources trending_db ! 0) = Approved
   \<and> r_trending_score (resources (update_trending_scores trending_db (40 * 86400000000)) ! 0)
       = 18 / 10
   \<and> (1::nat) < length (resources trending_db)
   \<and> r_status (resources trending_db ! 1) \<noteq> Approved
   \<and> resources (update_trending_scores trending_db (40 * 86400000000)) ! 1
       = mk_resource 101 Pending 1 0 (38 * 86400000000)
   \<and> r_trending_score (resources (update_trending_scores trending_db (40 * 86400000000)) ! 2)
       = 0"
proof -
  have l: "length (resources trending_db) = 3"
    by (simp add: trending_db_def example_defs)
  have s0: "r_status (resources trending_db ! 0) = Approved"
    and s1: "r_status (resources trending_db ! 1) \<noteq> Approved"
    and r1: "resources trending_db ! 1 = mk_resource 101 Pending 1 0 (38 * 86400000000)"
    and s2: "r_status (resources trending_db ! 2) = Approved"
    by (simp_all add: trending_db_def example_defs)
  have v0: "strict_trending_score trending_db (40 * 86400000000) (resources trending_db ! 0) = 18 / 10"
    by (simp add: strict_trending_score_def strict_recency_bonus_def younger_than_days_def
          trending_db_def example_defs)
  have v2: "strict_trending_score trending_db (40 * 86400000000) (resources trending_db ! 2) = 0"
    by (simp add: strict_trending_score_def strict_recency_bonus_def younger_than_days_def
          trending_db_def example_defs)
  from update_trending_scores_formula[of trending_db "40 * 86400000000"] l s0 s1 s2 r1 v0 v2
  show ?thesis by simp
qed

section \<open>The recommendation procedure raises\<close>

lemma user_profile_analysis_fails:
  "filter set_returning_in_aggregate user_profile_select_list \<noteq> []"
  by (simp add: user_profile_select_list_def set_returning_def)

lemmas discover_defs = discover_db_def personalized_query_def popular_query_def

text \<open>
  Claim C10 is not what the procedure does. \<open>get_personalized_recommendations\<close> returns
  no list, empty or not, for a user without a row in \<open>user_preferences\<close> or for any
  other: the analysis of its query refuses \<open>array_agg(DISTINCT unnest(r.tags))\<close>, and
  every call raises \<open>feature_not_supported\<close> before the join with \<open>user_prefs\<close> is
  reached.
\<close>

theorem get_personalized_recommendations_without_preferences:
  "get_personalized_recommendations d now target_user_id limit_count exclude_viewed
     = Inl Feature_not_supported"
  by (simp add: get_personalized_recommendations_def user_profile_analysis_fails)

theorem get_personalized_recommendations_without_preferences_witness:
  "\<not> has_preferences discover_db 2
   \<and> interaction_history discover_db 2 =
       [\<lparr> ui_user_id = Some 2, ui_resource_id = Some 100,
          ui_interaction_type = ''favorite'', ui_created_at = 0 \<rparr>]
   \<and> vote_history discover_db 2 = [mk_vote 11 100 2 Up]
   \<and> get_personalized_recommendations discover_db 5 2 10 False = Inl Feature_not_supported
   \<and> get_personalized_recommendations discover_db 5 2 10 False \<noteq> Inr []"
proof -
  have np: "\<not> has_preferences discover_db 2"
    by (simp add: has_preferences_def discover_defs example_defs)
  have "interaction_history discover_db 2 =
       [\<lparr> ui_user_id = Some 2, ui_resource_id = Some 100,
          ui_interaction_type = ''favorite'', ui_created_at = 0 \<rparr>]"
    and "vote_history discover_db 2 = [mk_vote 11 100 2 Up]"
    by (simp_all add: interaction_history_def vote_history_def discover_defs example_defs)
  with np get_personalized_recommendations_without_preferences[of discover_db 5 2 10 False]
  show ?thesis by simp
qed

section \<open>The personalized fallback\<close>

lemma getPersonalizedRecommendations_empty:
  "getPersonalizedRecommendations d now u limit ev ex cat diff mt = []"
  by (simp add: getPersonalizedRecommendations_def get_personalized_recommendations_def
        user_profile_analysis_fails)

lemma discover_GET_popular:
  "discover_GET d now userId (query\<lparr>q_algorithm := Popular\<rparr>) rc =
     \<lparr> data = getPopularContent d (q_limit query) (q_exclude_ids query)
                (q_category query) (q_difficulty query) (q_max_time query),
       algorithm_used = Popular \<rparr>"
  by (simp add: discover_GET_def)

lemma discover_GET_personalized:
  assumes "q_algorithm query = Personalized"
  shows "discover_GET d now (Some uid) query rc =
     \<lparr> data = getPopularContent d (q_limit query) (q_exclude_ids query)
                (q_category query) (q_difficulty query) (q_max_time query),
       algorithm_used = Popular \<rparr>"
  using assms by (simp add: discover_GET_def getPersonalizedRecommendations_empty)

text \<open>
  Claim C4. The call of the recommendation procedure fails for every user, the helper of
  the personalized strategy then has no data and yields no row, and the route falls back.
  So a personalized request of an authenticated user, whatever the user's history and in
  particular when there is none, is answered exactly as the popular request with the
  same filters is, and reports the popular algorithm; it is never answered with an empty
  list when the popular strategy has results for the same filters.
\<close>

theorem discover_GET_personalized_fallback:
  assumes "q_algorithm query = Personalized"
  shows "discover_GET d now (Some uid) query rc =
           discover_GET d now (Some uid) (query\<lparr>q_algorithm := Popular\<rparr>) rc'
       \<and> algorithm_used (discover_GET d now (Some uid) query rc) = Popular
       \<and> data (discover_GET d now (Some uid) query rc) =
           getPopularContent d (q_limit query) (q_exclude_ids query)
             (q_category query) (q_difficulty query) (q_max_time query)
       \<and> (getPopularContent d (q_limit query) (q_exclude_ids query)
             (q_category query) (q_difficulty query) (q_max_time query) \<noteq> []
          \<longrightarrow> data (discover_GET d now (Some uid) query rc) \<noteq> [])"
  by (simp add: discover_GET_personalized[OF assms] discover_GET_popular)

theorem discover_GET_personalized_fallback_witness:
  "q_algorithm personalized_query = Personalized
   \<and> interaction_history discover_db 3 = []
   \<and> vote_history discover_db 3 = []
   \<and> discover_GET discover_db 5 (Some 3) personalized_query [] =
       \<lparr> data = [\<lparr> row_resource = mk_resource 100 Approved 1 0 0,
                    row_relevance_score = None \<rparr>],
         algorithm_used = Popular \<rparr>
   \<and> discover_GET discover_db 5 (Some 3) popular_query [] =
       \<lparr> data = [\<lparr> row_resource = mk_resource 100 Approved 1 0 0,
                    row_relevance_score = None \<rparr>],
         algorithm_used = Popular \<rparr>
   \<and> getPopularContent discover_db 1 [] None None None \<noteq> []"
proof -
  have a: "q_algorithm personalized_query = Personalized"
    by (simp add: personalized_query_def)
  have h: "interaction_history discover_db 3 = []" "vote_history discover_db 3 = []"
    by (simp_all add: interaction_history_def vote_history_def discover_defs example_defs)
  have pop: "discover_GET discover_db 5 (Some 3) popular_query [] =
       \<lparr> data = [\<lparr> row_resource = mk_resource 100 Approved 1 0 0,
                    row_relevance_score = None \<rparr>],
         algorithm_used = Popular \<rparr>"
    by (simp add: discover_GET_def getPopularContent_def apply_filters_def discover_defs example_defs)
  have ne: "getPopularContent discover_db 1 [] None None None \<noteq> []"
    by (simp add: getPopularContent_def apply_filters_def discover_defs example_defs)
  from discover_GET_personalized_fallback[OF a, of discover_db 5 3 "[]" "[]"]
  have "discover_GET discover_db 5 (Some 3) personalized_query [] =
        discover_GET discover_db 5 (Some 3) (personalized_query\<lparr>q_algorithm := Popular\<rparr>) []"
    by blast
  with pop have "discover_GET discover_db 5 (Some 3) personalized_query [] =
       \<lparr> data = [\<lparr> row_resource = mk_resource 100 Approved 1 0 0,
                    row_relevance_score = None \<rparr>],
         algorithm_used = Popular \<rparr>"
    by (simp add: popular_query_def)
  with a h pop ne show ?thesis by simp
qed

section \<open>The weekly allocation\<close>

lemma ranks_take_10:
  assumes "10 \<le> length rows"
  shows "map snd (take 10 (zip rows (map int [1 ..< Suc (length rows)])))
         = [1, 2, 3, 4, 5, 6, 7, 8, 9, 10]"
proof -
  have "map snd (take 10 (zip rows (map int [1 ..< Suc (length rows)])))
        = take 10 (map int [1 ..< Suc (length rows)])"
    by (simp add: take_map[symmetric] take_zip)
  also have "\<dots> = map int (take 10 [1 ..< Suc (length rows)])"
    by (simp add: take_map)
  also have "take 10 [1 ..< Suc (length rows)] = [1 ..< 1 + 10]"
    by (rule take_upt) (use assms in simp)
  also have "[1 ..< 1 + 10] = [1 ..< (11::nat)]"
    by simp
  also have "map int [1 ..< 11] = [1, 2, 3, 4, 5, 6, 7, 8, 9, 10]"
    by code_simp
  finally show ?thesis .
qed

lemma ranked_content_ranks:
  assumes "10 \<le> length (filter (eligible ws) (resources d))"
  shows "map snd (ranked_content d ws) = [1, 2, 3, 4, 5, 6, 7, 8, 9, 10]"
proof -
  have "filter (\<lambda>r. in_week ws r \<and> r_status r = Approved \<and> 0 < r_quality_score r) (resources d)
        = filter (eligible ws) (resources d)"
    by (simp add: eligible_def[abs_def])
  with assms show ?thesis
    unfolding ranked_content_def Let_def
    by (intro ranks_take_10) simp
qed

lemma reward_distribution_rows_amounts:
  "map rd_amount (reward_distribution_rows d ws pool rid)
   = map (reward_amount pool) (map snd (ranked_content d ws))"
  "map rd_rank (reward_distribution_rows d ws pool rid) = map snd (ranked_content d ws)"
  by (simp_all add: reward_distribution_rows_def comp_def case_prod_beta)

lemma update_absent_id:
  "k \<notin> set (map wr_id ws) \<Longrightarrow> map (\<lambda>w. if wr_id w = k then f w else w) ws = ws"
  by (induction ws) auto

lemma reward_distribution_rows_weekly_rewards [simp]:
  "reward_distribution_rows (d\<lparr>weekly_rewards := w\<rparr>) = reward_distribution_rows d"
  by (simp add: reward_distribution_rows_def ranked_content_def fun_eq_iff)

lemma calculate_weekly_rewards_run:
  assumes "select_config_into cast_decimal d ''weekly_distribution_percentage'' = Inr (Some p)"
    and "new_id \<notin> set (map wr_id (weekly_rewards d))"
  shows "calculate_weekly_rewards d now new_id ws =
     Inr (d\<lparr>weekly_rewards := weekly_rewards d @
               [\<lparr> wr_id = new_id, wr_week_start = ws, wr_week_end = ws + 6,
                  wr_total_pool_amount = total_pool_of d ws p,
                  wr_calculation_completed_at = Some now \<rparr>],
            reward_distributions := reward_distributions d @
               reward_distribution_rows d ws (total_pool_of d ws p) new_id\<rparr>, new_id)"
proof -
  have "map (\<lambda>w. if wr_id w = new_id then w\<lparr>wr_calculation_completed_at := Some now\<rparr> else w)
          (weekly_rewards d) = weekly_rewards d"
    using assms(2) by (rule update_absent_id)
  then show ?thesis
    using assms
    by (simp add: calculate_weekly_rewards_def Let_def)
qed

text \<open>
  Claim C6. When \<open>weekly_distribution_percentage\<close> is configured and the week has at least
  10 eligible resources (created in the week's window, approved, of positive quality
  score), \<open>calculate_weekly_rewards\<close> succeeds and adds ten \<open>reward_distributions\<close> rows,
  of ranks 1 to 10, whose amounts are 30%, 20%, 15%, 10% and 8% of the pool for the ranks
  1 to 5 and 3.4% of the pool for each of the ranks 6 to 10; the amounts add up to the
  pool, which is the \<open>total_pool_amount\<close> of the \<open>weekly_rewards\<close> row the run adds.
\<close>

theorem calculate_weekly_rewards_allocation:
  assumes "select_config_into cast_decimal d ''weekly_distribution_percentage'' = Inr (Some p)"
    and "new_id \<notin> set (map wr_id (weekly_rewards d))"
    and "10 \<le> length (filter (eligible week_start_date) (resources d))"
  shows "\<exists>d' pool rows.
           calculate_weekly_rewards d now new_id week_start_date = Inr (d', new_id)
         \<and> wr_total_pool_amount (last (weekly_rewards d')) = pool
         \<and> reward_distributions d' = reward_distributions d @ rows
         \<and> map rd_rank rows = [1, 2, 3, 4, 5, 6, 7, 8, 9, 10]
         \<and> map rd_amount rows =
             [pool * 0.30, pool * 0.20, pool * 0.15, pool * 0.10, pool * 0.08,
              pool * 0.034, pool * 0.034, pool * 0.034, pool * 0.034, pool * 0.034]
         \<and> sum_list (map rd_amount rows) = pool"
proof -
  define pool where "pool = total_pool_of d week_start_date p"
  define d' where "d' = d\<lparr>weekly_rewards := weekly_rewards d @
               [\<lparr> wr_id = new_id, wr_week_start = week_start_date,
                  wr_week_end = week_start_date + 6,
                  wr_total_pool_amount = pool,
                  wr_calculation_completed_at = Some now \<rparr>],
            reward_distributions := reward_distributions d @
               reward_distribution_rows d week_start_date pool new_id\<rparr>"
  have run:
    "calculate_weekly_rewards d now new_id week_start_date = Inr (d', new_id)"
    "wr_total_pool_amount (last (weekly_rewards d')) = pool"
    "reward_distributions d' = reward_distributions d @
           reward_distribution_rows d week_start_date pool new_id"
    using calculate_weekly_rewards_run[OF assms(1,2), of now week_start_date]
    by (simp_all add: d'_def pool_def)
  let ?rows = "reward_distribution_rows d week_start_date pool new_id"
  have ranks: "map rd_rank ?rows = [1, 2, 3, 4, 5, 6, 7, 8, 9, 10]"
    by (simp add: reward_distribution_rows_amounts ranked_content_ranks[OF assms(3)])
  have amounts: "map rd_amount ?rows =
             [pool * 0.30, pool * 0.20, pool * 0.15, pool * 0.10, pool * 0.08,
              pool * 0.034, pool * 0.034, pool * 0.034, pool * 0.034, pool * 0.034]"
    by (simp add: reward_distribution_rows_amounts ranked_content_ranks[OF assms(3)]
          reward_amount_def)
  have "sum_list (map rd_amount ?rows) = pool"
    unfolding amounts by simp
  with run ranks amounts show ?thesis
    by (intro exI[of _ d'] exI[of _ pool] exI[of _ ?rows]) simp
qed


lemma rewards_db_pool: "total_pool_of rewards_db 0 80 = 9600"
  by (simp add: total_pool_of_def in_week_def date_timestamp_def interval_days_def
        usecs_per_day_def rewards_db_def example_defs)

lemma rewards_db_ranked:
  "map (\<lambda>(r, rank). (r_id r, rank)) (ranked_content rewards_db 0) =
     [(111, 1), (110, 2), (109, 3), (108, 4), (107, 5),
      (106, 6), (105, 7), (104, 8), (103, 9), (102, 10)]"
  by (simp add: ranked_content_def in_week_def date_timestamp_def interval_days_def
        usecs_per_day_def rewards_db_def example_defs upt_rec_numeral)


lemma reward_distribution_rows_ids:
  "map rd_resource_id (reward_distribution_rows d ws pool rid)
   = map fst (map (\<lambda>(r, rank). (r_id r, rank)) (ranked_content d ws))"
  by (simp add: reward_distribution_rows_def comp_def case_prod_beta)

theorem calculate_weekly_rewards_allocation_witness:
  "select_config_into cast_decimal rewards_db ''weekly_distribution_percentage'' = Inr (Some 80)
   \<and> 500 \<notin> set (map wr_id (weekly_rewards rewards_db))
   \<and> 10 \<le> length (filter (eligible 0) (resources rewards_db))
   \<and> (case calculate_weekly_rewards rewards_db 7 500 0 of
         Inl e \<Rightarrow> False
       | Inr (d', reward_id) \<Rightarrow>
           map wr_total_pool_amount (weekly_rewards d') = [9600]
           \<and> map rd_resource_id (reward_distributions d')
               = [111, 110, 109, 108, 107, 106, 105, 104, 103, 102]
           \<and> map rd_amount (reward_distributions d')
               = [2880, 1920, 1440, 960, 768, 1632 / 5, 1632 / 5, 1632 / 5, 1632 / 5, 1632 / 5])"
proof -
  have h1: "select_config_into cast_decimal rewards_db ''weekly_distribution_percentage''
            = Inr (Some 80)"
    by (simp add: select_config_into_def rewards_db_def example_defs)
  have h2: "500 \<notin> set (map wr_id (weekly_rewards rewards_db))"
    by (simp add: rewards_db_def example_defs)
  have h3: "10 \<le> length (filter (eligible 0) (resources rewards_db))"
    by (simp add: eligible_def in_week_def date_timestamp_def interval_days_def
          usecs_per_day_def rewards_db_def example_defs)
  have old: "weekly_rewards rewards_db = []" "reward_distributions rewards_db = []"
    by (simp_all add: rewards_db_def example_defs)
  define D where "D = rewards_db\<lparr>weekly_rewards :=
               [\<lparr> wr_id = 500, wr_week_start = 0, wr_week_end = 6,
                  wr_total_pool_amount = 9600,
                  wr_calculation_completed_at = Some 7 \<rparr>],
            reward_distributions := reward_distribution_rows rewards_db 0 9600 500\<rparr>"
  have run: "calculate_weekly_rewards rewards_db 7 500 0 = Inr (D, 500)"
    using calculate_weekly_rewards_run[OF h1 h2, of 7 0]
    by (simp add: D_def old rewards_db_pool)
  have w: "map wr_total_pool_amount (weekly_rewards D) = [9600]"
    by (simp add: D_def)
  have ids: "map rd_resource_id (reward_distributions D)
               = [111, 110, 109, 108, 107, 106, 105, 104, 103, 102]"
    by (simp add: D_def reward_distribution_rows_ids rewards_db_ranked)
  from calculate_weekly_rewards_allocation[OF h1 h2 h3, of 7]
  have "map rd_amount (reward_distributions D)
               = [2880, 1920, 1440, 960, 768, 1632 / 5, 1632 / 5, 1632 / 5, 1632 / 5, 1632 / 5]"
    unfolding run by (auto simp: old) (simp add: D_def)
  with h1 h2 h3 w ids run show ?thesis by simp
qed

section \<open>Running the reward distributor again\<close>

lemmas week_eval_defs =
  calculate_weekly_rewards_def select_config_into_def total_pool_of_def
  reward_distribution_rows_def ranked_content_def reward_amount_def in_week_def
  date_timestamp_def interval_days_def usecs_per_day_def

text \<open>
  The week that starts on day 0 is processed twice, with the row ids 500 and 501: the
  second run adds a second \<open>weekly_rewards\<close> row for the same week and a second
  \<open>reward_distributions\<close> row for the same resource.
\<close>

theorem calculate_weekly_rewards_rerun_counterexample:
  "calculate_weekly_rewards week_db 7 500 0 = Inr (week_db_processed, 500)
   \<and> calculate_weekly_rewards week_db_processed 8 501 0 = Inr (week_db_processed_twice, 501)
   \<and> length (weekly_rewards_of week_db_processed 0) = 1
   \<and> length (weekly_rewards_of week_db_processed_twice 0) = 2
   \<and> length (reward_distributions week_db_processed) = 1
   \<and> length (reward_distributions week_db_processed_twice) = 2"
proof -
  have "calculate_weekly_rewards week_db 7 500 0 = Inr (week_db_processed, 500)"
    by (simp add: week_eval_defs week_db_def week_db_processed_def example_defs)
  moreover have "calculate_weekly_rewards week_db_processed 8 501 0
                 = Inr (week_db_processed_twice, 501)"
    by (simp add: week_eval_defs week_db_def week_db_processed_def
          week_db_processed_twice_def example_defs)
  moreover have "length (weekly_rewards_of week_db_processed 0) = 1"
    "length (weekly_rewards_of week_db_processed_twice 0) = 2"
    "length (reward_distributions week_db_processed) = 1"
    "length (reward_distributions week_db_processed_twice) = 2"
    by (simp_all add: weekly_rewards_of_def week_db_processed_def week_db_processed_twice_def)
  ultimately show ?thesis by simp
qed

lemma calculate_weekly_rewards_Inr:
  assumes "calculate_weekly_rewards d now new_id ws = Inr (d1, rid)"
  shows "\<exists>p. select_config_into cast_decimal d ''weekly_distribution_percentage'' = Inr (Some p)
           \<and> new_id \<notin> set (map wr_id (weekly_rewards d))"
  using assms
  by (auto simp: calculate_weekly_rewards_def Let_def split: sum.splits option.splits if_splits)

lemma select_config_into_config:
  "system_config d' = system_config d \<Longrightarrow> select_config_into c d' k = select_config_into c d k"
  by (simp add: select_config_into_def)

lemma reward_rows_resources:
  "resources d' = resources d \<Longrightarrow>
   reward_distribution_rows d' ws pool rid = reward_distribution_rows d ws pool rid"
  "resources d' = resources d \<Longrightarrow> total_pool_of d' ws p = total_pool_of d ws p"
  by (simp_all add: reward_distribution_rows_def ranked_content_def total_pool_of_def)

lemma award_rows:
  "map award (reward_distribution_rows d ws pool rid)
   = map award (reward_distribution_rows d ws pool rid')"
  by (simp add: reward_distribution_rows_def award_def case_prod_beta)

text \<open>
  Claim C3, as the procedure has it. \<open>calculate_weekly_rewards\<close> does not look for an
  earlier run of the week. After a run for a week, a second run for the same week (with a
  fresh row id) succeeds as well: it adds one more \<open>weekly_rewards\<close> row for that week
  and one more batch of \<open>reward_distributions\<close> rows, which award the same users and
  resources the same ranks and amounts as the first batch.
\<close>

theorem calculate_weekly_rewards_rerun:
  assumes "calculate_weekly_rewards d now new_id week_start_date = Inr (d1, reward_id)"
    and "new_id' \<notin> set (map wr_id (weekly_rewards d1))"
  shows "\<exists>d2 rows1 rows2.
           calculate_weekly_rewards d1 now' new_id' week_start_date = Inr (d2, new_id')
         \<and> length (weekly_rewards_of d1 week_start_date)
             = length (weekly_rewards_of d week_start_date) + 1
         \<and> length (weekly_rewards_of d2 week_start_date)
             = length (weekly_rewards_of d week_start_date) + 2
         \<and> reward_distributions d1 = reward_distributions d @ rows1
         \<and> reward_distributions d2 = reward_distributions d @ rows1 @ rows2
         \<and> map award rows2 = map award rows1"
proof -
  from calculate_weekly_rewards_Inr[OF assms(1)] obtain p where
    p: "select_config_into cast_decimal d ''weekly_distribution_percentage'' = Inr (Some p)"
    and fresh: "new_id \<notin> set (map wr_id (weekly_rewards d))"
    by blast
  let ?pool = "total_pool_of d week_start_date p"
  let ?rows1 = "reward_distribution_rows d week_start_date ?pool new_id"
  let ?rows2 = "reward_distribution_rows d week_start_date ?pool new_id'"
  from calculate_weekly_rewards_run[OF p fresh, of now week_start_date] assms(1)
  have d1: "d1 = d\<lparr>weekly_rewards := weekly_rewards d @
               [\<lparr> wr_id = new_id, wr_week_start = week_start_date,
                  wr_week_end = week_start_date + 6,
                  wr_total_pool_amount = ?pool,
                  wr_calculation_completed_at = Some now \<rparr>],
            reward_distributions := reward_distributions d @ ?rows1\<rparr>"
    by simp
  then have same: "resources d1 = resources d" "system_config d1 = system_config d"
    by simp_all
  have p1: "select_config_into cast_decimal d1 ''weekly_distribution_percentage''
            = Inr (Some p)"
    using p by (simp add: select_config_into_config[OF same(2)])
  define d2 where "d2 = d1\<lparr>weekly_rewards := weekly_rewards d1 @
               [\<lparr> wr_id = new_id', wr_week_start = week_start_date,
                  wr_week_end = week_start_date + 6,
                  wr_total_pool_amount = ?pool,
                  wr_calculation_completed_at = Some now' \<rparr>],
            reward_distributions := reward_distributions d1 @ ?rows2\<rparr>"
  have run2: "calculate_weekly_rewards d1 now' new_id' week_start_date = Inr (d2, new_id')"
    using calculate_weekly_rewards_run[OF p1 assms(2), of now' week_start_date]
    by (simp add: d2_def reward_rows_resources[OF same(1)])
  have l1: "length (weekly_rewards_of d1 week_start_date)
             = length (weekly_rewards_of d week_start_date) + 1"
    by (simp add: d1 weekly_rewards_of_def)
  have l2: "length (weekly_rewards_of d2 week_start_date)
             = length (weekly_rewards_of d week_start_date) + 2"
    by (simp add: d2_def d1 weekly_rewards_of_def)
  have r1: "reward_distributions d1 = reward_distributions d @ ?rows1"
    by (simp add: d1)
  have r2: "reward_distributions d2 = reward_distributions d @ ?rows1 @ ?rows2"
    by (simp add: d2_def d1)
  have "map award ?rows2 = map award ?rows1"
    by (rule award_rows)
  with run2 l1 l2 r1 r2 show ?thesis by blast
qed

theorem calculate_weekly_rewards_rerun_witness:
  "calculate_weekly_rewards week_db 7 500 0 = Inr (week_db_processed, 500)
   \<and> 501 \<notin> set (map wr_id (weekly_rewards week_db_processed))
   \<and> length (weekly_rewards_of week_db_processed_twice 0)
       = length (weekly_rewards_of week_db 0) + 2
   \<and> map wr_week_start (weekly_rewards week_db_processed_twice) = [0, 0]
   \<and> map award (reward_distributions week_db_processed_twice)
       = [(Some 9, 100, 1, 240, 2), (Some 9, 100, 1, 240, 2)]"
proof -
  have h1: "calculate_weekly_rewards week_db 7 500 0 = Inr (week_db_processed, 500)"
    by (simp add: week_eval_defs week_db_def week_db_processed_def example_defs)
  have h2: "501 \<notin> set (map wr_id (weekly_rewards week_db_processed))"
    by (simp add: week_db_processed_def)
  from calculate_weekly_rewards_rerun[OF h1 h2, of 8] obtain d2 where
    "calculate_weekly_rewards week_db_processed 8 501 0 = Inr (d2, 501)"
    "length (weekly_rewards_of d2 0) = length (weekly_rewards_of week_db 0) + 2"
    by blast
  moreover have "calculate_weekly_rewards week_db_processed 8 501 0
                 = Inr (week_db_processed_twice, 501)"
    by (simp add: week_eval_defs week_db_def week_db_processed_def
          week_db_processed_twice_def example_defs)
  ultimately have "length (weekly_rewards_of week_db_processed_twice 0)
                   = length (weekly_rewards_of week_db 0) + 2"
    by simp
  moreover have "map wr_week_start (weekly_rewards week_db_processed_twice) = [0, 0]"
    "map award (reward_distributions week_db_processed_twice)
       = [(Some 9, 100, 1, 240, 2), (Some 9, 100, 1, 240, 2)]"
    by (simp_all add: week_db_processed_twice_def award_def)
  ultimately show ?thesis using h1 h2 by simp
qed

section \<open>The vote toggle\<close>

lemmas route_defs =
  votes_POST_def insert_vote_def update_vote_where_id_def delete_vote_where_id_def
  update_resource_scores_def update_user_reputation_raises
  userReputationScore_def votes_of_def select_status_def update_resources_where_id_def
  scorer_defs

lemma voteWeight_rounding:
  "voteWeight 7 = 7656119366529844 / 4503599627370496 \<and> voteWeight 7 \<noteq> 17 / 10"
  by code_simp

text \<open>
  Claim C7 is what the route attempts and not what it does. Before anyone has voted,
  user 4 sends a request with type up on resource 100: it is answered with the error
  \<open>Failed to create vote\<close>, since the trigger on \<open>votes\<close> raises and the insertion
  is undone. The request with type down that follows fares the same, and no down vote is
  left, nor any vote of the pair. Likewise, in the scenario, the up-vote that user 3 has
  on the resource is neither removed by a request with type up nor turned by one with
  type down.
\<close>

theorem votes_POST_toggle:
  "votes_of no_votes_db 4 100 = []
   \<and> votes_POST no_votes_db 1 14 (Some 4) 100 Up
       = (no_votes_db, Inl (Http ''Failed to create vote'' 500))
   \<and> votes_POST no_votes_db 2 15 (Some 4) 100 Down
       = (no_votes_db, Inl (Http ''Failed to create vote'' 500))
   \<and> votes_of scenario_db 3 100 = [mk_vote 13 100 3 Up]
   \<and> votes_POST scenario_db 3 16 (Some 3) 100 Up
       = (scenario_db, Inl (Http ''Failed to remove vote'' 500))
   \<and> votes_POST scenario_db 4 17 (Some 3) 100 Down
       = (scenario_db, Inl (Http ''Failed to update vote'' 500))"
  by (simp add: route_defs no_votes_db_def example_defs)

end
